theory Spec2Isabelle
  imports Main
begin

section \<open>Strings and paths\<close>

text \<open>
  Python strings are modelled as \<^typ>\<open>string\<close>; the filenames, paths and URLs of the
  workflow are taken to be ASCII, so that \<open>str.lower\<close> is the map of \<open>A..Z\<close> to \<open>a..z\<close>.
  \<open>os.path\<close> is the POSIX one (separator \<open>/\<close>).
\<close>

definition bslash :: char where
  "bslash = CHR 0x5C"

definition lower_char :: "char \<Rightarrow> char" where
  "lower_char c =
     (case map_of (zip ''ABCDEFGHIJKLMNOPQRSTUVWXYZ'' ''abcdefghijklmnopqrstuvwxyz'') c of
        Some d \<Rightarrow> d
      | None \<Rightarrow> c)"

definition lower :: "string \<Rightarrow> string" where
  "lower s = map lower_char s"

text \<open>\<open>value.replace("\\", "/")\<close>.\<close>

definition unbackslash :: "string \<Rightarrow> string" where
  "unbackslash s = map (\<lambda>c. if c = bslash then CHR ''/'' else c) s"

text \<open>\<open>needle in haystack\<close> and \<open>s.startswith(p)\<close>, \<open>s.endswith(p)\<close> on strings.\<close>

fun startswith :: "string \<Rightarrow> string \<Rightarrow> bool" where
  "startswith s [] = True"
| "startswith [] (p # ps) = False"
| "startswith (c # cs) (p # ps) = (c = p \<and> startswith cs ps)"

definition endswith :: "string \<Rightarrow> string \<Rightarrow> bool" where
  "endswith s p = startswith (rev s) (rev p)"

fun contains :: "string \<Rightarrow> string \<Rightarrow> bool" where
  "contains [] needle = (needle = [])"
| "contains (c # cs) needle = (startswith (c # cs) needle \<or> contains cs needle)"

text \<open>\<open>os.path.basename\<close>: what follows the last \<open>/\<close>.\<close>

definition basename :: "string \<Rightarrow> string" where
  "basename p = rev (takeWhile (\<lambda>c. c \<noteq> CHR ''/'') (rev p))"

text \<open>
  \<open>os.path.splitext\<close>: the extension starts at the last dot of the last path component,
  unless only dots precede it in that component.
\<close>

definition splitext :: "string \<Rightarrow> string \<times> string" where
  "splitext p =
     (let base = basename p;
          ext = rev (takeWhile (\<lambda>c. c \<noteq> CHR ''.'') (rev base));
          stem = take (length base - length ext - 1) base
      in if CHR ''.'' \<in> set base \<and> list_ex (\<lambda>c. c \<noteq> CHR ''.'') stem
         then (take (length p - length ext - 1) p, CHR ''.'' # ext)
         else (p, []))"

text \<open>\<open>os.path.join\<close> of two and of three components, \<open>os.path.isabs\<close>.\<close>

definition isabs :: "string \<Rightarrow> bool" where
  "isabs p = startswith p ''/''"

definition path_join :: "string \<Rightarrow> string \<Rightarrow> string" where
  "path_join a b =
     (if isabs b then b
      else if a = [] \<or> endswith a ''/'' then a @ b
      else a @ ''/'' @ b)"

definition path_join3 :: "string \<Rightarrow> string \<Rightarrow> string \<Rightarrow> string" where
  "path_join3 a b c = path_join (path_join a b) c"

text \<open>Truthiness of an optional string: \<open>None\<close> and \<open>""\<close> are false.\<close>

definition truthy :: "string option \<Rightarrow> bool" where
  "truthy v = (case v of None \<Rightarrow> False | Some s \<Rightarrow> s \<noteq> [])"

text \<open>\<open>a or b\<close> on an optional string and a default.\<close>

definition or_else :: "string option \<Rightarrow> string \<Rightarrow> string" where
  "or_else v d = (if truthy v then the v else d)"

section \<open>Model references\<close>

text \<open>
  A reference is the dict that extraction appends to \<open>found_models\<close>. A key that is absent
  and a key bound to \<open>None\<close> are read alike by every \<open>.get\<close> of the code, so both are
  \<^term>\<open>None\<close> here.
\<close>

text \<open>A quantized-variant suggestion attached to an unresolved reference.\<close>

record quant_alternative =
  alt_filename :: string
  alt_url :: "string option"
  alt_source :: string
  alt_folder :: "string option"
  alt_repo :: "string option"
  alt_path :: "string option"

record model_ref =
  filename :: "string option"
  requested_path :: "string option"
  url :: "string option"
  node_id :: "int option"
  node_title :: "string option"
  suggested_folder :: "string option"
  origin :: "string option"
  source :: "string option"
  note_text :: "string option"
  hf_repo :: "string option"
  hf_path :: "string option"
  nunchaku_precision :: "string option"
  found_path :: "string option"
  clean_path :: "string option"
  alternatives :: "quant_alternative list"

definition empty_ref :: model_ref where
  "empty_ref =
     \<lparr>filename = None, requested_path = None, url = None, node_id = None, node_title = None,
      suggested_folder = None, origin = None, source = None, note_text = None, hf_repo = None,
      hf_path = None, nunchaku_precision = None, found_path = None, clean_path = None,
      alternatives = []\<rparr>"

definition is_nunchaku_svdq_name :: "string option \<Rightarrow> bool" where
  "is_nunchaku_svdq_name v =
     (if \<not> truthy v then False
      else let lowered = lower (the v)
           in contains lowered ''svdq-'' \<and> (contains lowered ''int4'' \<or> contains lowered ''fp4''))"

definition is_nunchaku_extensionless_identifier :: "string option \<Rightarrow> bool" where
  "is_nunchaku_extensionless_identifier v =
     (if \<not> truthy v then False
      else let base = basename (unbackslash (the v));
               ext = snd (splitext base)
           in is_nunchaku_svdq_name (Some base) \<and> ext = [])"

section \<open>LocalAssetMatcher: \<open>check_model_files\<close>\<close>

text \<open>
  The storage probe: \<open>folder_paths.get_folder_paths\<close> (\<^term>\<open>None\<close> is its
  \<open>KeyError\<close>), \<open>folder_paths.base_path\<close>, \<open>os.path.exists\<close>, \<open>os.walk\<close> (the triples
  \<open>(dirpath, dirnames, filenames)\<close> in the order they are yielded) and
  \<open>os.path.relpath\<close> (\<^term>\<open>None\<close> is its \<open>ValueError\<close>).
\<close>

record storage =
  get_folder_paths :: "string \<Rightarrow> string list option"
  base_path :: string
  path_exists :: "string \<Rightarrow> bool"
  walk :: "string \<Rightarrow> (string \<times> string list \<times> string list) list"
  relpath :: "string \<Rightarrow> string \<Rightarrow> string option"

fun recursive_find_file :: "storage \<Rightarrow> string \<Rightarrow> string \<Rightarrow> string option" where
  "recursive_find_file st fname root_dir =
     (case filter (\<lambda>(dirpath, dirnames, filenames). fname \<in> set filenames) (walk st root_dir) of
        [] \<Rightarrow> None
      | (dirpath, _, _) # _ \<Rightarrow> Some (path_join dirpath fname))"

definition stem_match :: "string \<Rightarrow> string \<Rightarrow> bool" where
  "stem_match stem_lower file =
     (lower file = stem_lower \<or> startswith (lower file) (stem_lower @ ''.''))"

fun recursive_find_file_by_stem :: "storage \<Rightarrow> string \<Rightarrow> string \<Rightarrow> string option" where
  "recursive_find_file_by_stem st stem root_dir =
     (let stem_lower = lower stem
      in if stem_lower = [] then None
         else case concat (map (\<lambda>(dirpath, dirnames, filenames).
                        map (\<lambda>file. path_join dirpath file)
                            (filter (stem_match stem_lower) filenames))
                     (walk st root_dir)) of
                [] \<Rightarrow> None
              | p # _ \<Rightarrow> Some p)"

fun recursive_find_dir :: "storage \<Rightarrow> string \<Rightarrow> string \<Rightarrow> string option" where
  "recursive_find_dir st dirname root_dir =
     (case filter (\<lambda>(dirpath, dirnames, filenames). dirname \<in> set dirnames) (walk st root_dir) of
        [] \<Rightarrow> None
      | (dirpath, _, _) # _ \<Rightarrow> Some (path_join dirpath dirname))"

definition is_path_like :: "string \<Rightarrow> bool" where
  "is_path_like v = (CHR ''/'' \<in> set v \<or> bslash \<in> set v)"

text \<open>The roots searched for a reference: the configured ones, or the fallback.\<close>

definition search_paths_of :: "storage \<Rightarrow> string \<Rightarrow> string list" where
  "search_paths_of st folder_type =
     (let search_paths = (case get_folder_paths st folder_type of None \<Rightarrow> [] | Some ps \<Rightarrow> ps)
      in if search_paths \<noteq> [] then search_paths
         else if folder_type \<noteq> [] \<and> (isabs folder_type \<or> is_path_like folder_type)
           then [if isabs folder_type then folder_type else path_join (base_path st) folder_type]
           else [path_join3 (base_path st) ''models'' folder_type])"

text \<open>
  One root of the loop over \<open>search_paths\<close>: the exact join, the recursive search, and for
  an extensionless SVDQ identifier the search by stem and by directory name.
\<close>

definition probe_root :: "storage \<Rightarrow> string \<Rightarrow> bool \<Rightarrow> string \<Rightarrow> string option" where
  "probe_root st fname allow_nunchaku_fuzzy root_path =
     (if \<not> path_exists st root_path then None
      else if path_exists st (path_join root_path fname) then Some (path_join root_path fname)
      else if truthy (recursive_find_file st fname root_path)
        then recursive_find_file st fname root_path
      else if allow_nunchaku_fuzzy
        then (if truthy (recursive_find_file_by_stem st fname root_path)
              then recursive_find_file_by_stem st fname root_path
              else if truthy (recursive_find_dir st fname root_path)
              then recursive_find_dir st fname root_path
              else None)
      else None)"

text \<open>The loop over the roots stops at the first hit: \<open>(found_path, found_root)\<close>.\<close>

fun probe_roots :: "storage \<Rightarrow> string \<Rightarrow> bool \<Rightarrow> string list \<Rightarrow> (string \<times> string) option" where
  "probe_roots st fname fuzzy [] = None"
| "probe_roots st fname fuzzy (root_path # rest) =
     (case probe_root st fname fuzzy root_path of
        Some p \<Rightarrow> Some (p, root_path)
      | None \<Rightarrow> probe_roots st fname fuzzy rest)"

definition locate :: "storage \<Rightarrow> model_ref \<Rightarrow> (string \<times> string) option" where
  "locate st model =
     (let fname = the (filename model);
          folder_type = (case suggested_folder model of None \<Rightarrow> ''checkpoints'' | Some f \<Rightarrow> f)
      in case probe_roots st fname (is_nunchaku_extensionless_identifier (Some fname))
                (search_paths_of st folder_type) of
           None \<Rightarrow> None
         | Some (p, r) \<Rightarrow> if p \<noteq> [] then Some (p, r) else None)"

text \<open>The references the loop does not skip.\<close>

definition checkable :: "model_ref \<Rightarrow> bool" where
  "checkable model = (truthy (filename model) \<and> filename model \<noteq> Some ''null'')"

definition rel_path_of :: "storage \<Rightarrow> string \<Rightarrow> string \<Rightarrow> string" where
  "rel_path_of st found found_root =
     (case relpath st found found_root of Some r \<Rightarrow> r | None \<Rightarrow> basename found)"

definition found_entry :: "storage \<Rightarrow> model_ref \<Rightarrow> string \<times> string \<Rightarrow> model_ref" where
  "found_entry st model hit =
     model\<lparr>found_path := Some (fst hit),
           clean_path := Some (rel_path_of st (fst hit) (snd hit))\<rparr>"

definition path_mismatch :: "storage \<Rightarrow> model_ref \<Rightarrow> string \<times> string \<Rightarrow> bool" where
  "path_mismatch st model hit =
     (let requested = or_else (requested_path model) (the (filename model));
          req_norm = unbackslash requested;
          found_norm = unbackslash (rel_path_of st (fst hit) (snd hit))
      in req_norm \<noteq> found_norm)"

text \<open>
  The body of the loop, on the three result lists \<open>(missing, existing, path_mismatches)\<close>.
  A found reference is appended to \<open>existing\<close>, and to \<open>path_mismatches\<close> as well when
  the relative path differs from the requested one.
\<close>

definition check_step ::
  "storage \<Rightarrow> model_ref list \<times> model_ref list \<times> model_ref list \<Rightarrow> model_ref \<Rightarrow>
   model_ref list \<times> model_ref list \<times> model_ref list" where
  "check_step st acc model =
     (case acc of (missing, existing, path_mismatches) \<Rightarrow>
        if \<not> checkable model then (missing, existing, path_mismatches)
        else case locate st model of
               Some hit \<Rightarrow>
                 (missing,
                  existing @ [found_entry st model hit],
                  if path_mismatch st model hit
                  then path_mismatches @ [found_entry st model hit]
                  else path_mismatches)
             | None \<Rightarrow> (missing @ [model], existing, path_mismatches))"

definition check_model_files ::
  "storage \<Rightarrow> model_ref list \<Rightarrow> model_ref list \<times> model_ref list \<times> model_ref list" where
  "check_model_files st found_models = foldl (check_step st) ([], [], []) found_models"

text \<open>The located, unlocated and mismatched references of a run of the loop.\<close>

definition located :: "storage \<Rightarrow> model_ref \<Rightarrow> bool" where
  "located st m = (checkable m \<and> locate st m \<noteq> None)"

definition unlocated :: "storage \<Rightarrow> model_ref \<Rightarrow> bool" where
  "unlocated st m = (checkable m \<and> locate st m = None)"

definition mismatched :: "storage \<Rightarrow> model_ref \<Rightarrow> bool" where
  "mismatched st m = (located st m \<and> path_mismatch st m (the (locate st m)))"

definition entry_of :: "storage \<Rightarrow> model_ref \<Rightarrow> model_ref" where
  "entry_of st m = found_entry st m (the (locate st m))"

text \<open>
  A storage with the single file \<open>models/loras/sub/x.safetensors\<close>, and a reference that
  asks for \<open>x.safetensors\<close> in the category \<open>loras\<close>.
\<close>

definition scenario3_storage :: storage where
  "scenario3_storage =
     \<lparr>get_folder_paths = (\<lambda>c. if c = ''loras'' then Some [''/comfy/models/loras''] else None),
      base_path = ''/comfy'',
      path_exists = (\<lambda>p. p = ''/comfy/models/loras'' \<or> p = ''/comfy/models/loras/sub''
                          \<or> p = ''/comfy/models/loras/sub/x.safetensors''),
      walk = (\<lambda>r. if r = ''/comfy/models/loras''
                   then [(''/comfy/models/loras'', [''sub''], []),
                         (''/comfy/models/loras/sub'', [], [''x.safetensors''])]
                   else []),
      relpath = (\<lambda>p r. if startswith p (r @ ''/'') then Some (drop (length r + 1) p) else None)\<rparr>"

definition scenario3_ref :: model_ref where
  "scenario3_ref =
     empty_ref\<lparr>filename := Some ''x.safetensors'', requested_path := Some ''x.safetensors'',
               node_id := Some 7, suggested_folder := Some ''loras''\<rparr>"

definition scenario3_entry :: model_ref where
  "scenario3_entry =
     scenario3_ref\<lparr>found_path := Some ''/comfy/models/loras/sub/x.safetensors'',
                   clean_path := Some ''sub/x.safetensors''\<rparr>"

section \<open>SearchBudgetController\<close>

text \<open>
  The knobs read from the environment at import time: \<open>HF_SEARCH_MAX_CALLS\<close>,
  \<open>HF_SEARCH_RATE_LIMIT_SECONDS\<close>, \<open>HF_SEARCH_MAX_SECONDS\<close> and
  \<open>HF_PRIORITY_REPO_SCAN_LIMIT\<close>.
\<close>

record config =
  max_calls :: int
  rate_limit_seconds :: int
  max_seconds :: int
  repo_scan_limit :: int

text \<open>The four kinds of remote call of the module, and what they answer.\<close>

datatype remote_call =
    ListModelsSearch string
  | ListModelsAuthorSearch string string
  | ListModelsAuthor string
  | ListRepoFiles string

datatype exn =
    FuturesTimeout
  | HFSearchBudgetError
  | UnboundLocalError
  | Raised string

datatype response = Returned "string list" | Throws exn

text \<open>\<open>str(e)\<close>; the two marker tests of the module read nothing else of an exception.\<close>

fun exn_text :: "exn \<Rightarrow> string" where
  "exn_text FuturesTimeout = []"
| "exn_text HFSearchBudgetError = []"
| "exn_text UnboundLocalError = ''cannot access local variable author_models''"
| "exn_text (Raised s) = s"

definition is_rate_limited_error :: "exn \<Rightarrow> bool" where
  "is_rate_limited_error e =
     (contains (exn_text e) ''429'' \<or> contains (exn_text e) ''Too Many Requests''
      \<or> contains (lower (exn_text e)) ''rate limit'')"

definition is_timeout_error :: "exn \<Rightarrow> bool" where
  "is_timeout_error e =
     (let t = lower (exn_text e)
      in contains t ''timeout'' \<or> contains t ''timed out'' \<or> contains t ''gateway''
         \<or> contains t ''504'' \<or> contains t ''524'')"

text \<open>
  The world outside the module: the answer and the duration of the \<open>k\<close>-th remote call,
  and whether the \<open>k\<close>-th construction of \<open>HfApi\<close> raises.
\<close>

record hf_env =
  respond :: "nat \<Rightarrow> remote_call \<Rightarrow> response"
  elapse :: "nat \<Rightarrow> remote_call \<Rightarrow> nat"
  api_init :: "nat \<Rightarrow> exn option"

record hf_result =
  r_url :: string
  r_repo :: string
  r_path :: string

text \<open>Python dicts keep insertion order; a store to a present key keeps its place.\<close>

fun dict_set :: "('k \<times> 'v) list \<Rightarrow> 'k \<Rightarrow> 'v \<Rightarrow> ('k \<times> 'v) list" where
  "dict_set [] k v = [(k, v)]"
| "dict_set ((k', v') # d) k v = (if k' = k then (k, v) # d else (k', v') # dict_set d k v)"

definition dict_get :: "('k \<times> 'v) list \<Rightarrow> 'k \<Rightarrow> 'v option" where
  "dict_get d k = map_of d k"

text \<open>
  An issued remote call, as the ghost log keeps it: the call, the time of its issue,
  whether the call site stands behind the gate \<open>_hf_search_allowed\<close>, and the counter, the
  deadline and the cooldown at that moment.
\<close>

record call_entry =
  ce_call :: remote_call
  ce_time :: int
  ce_gated :: bool
  ce_calls :: int
  ce_deadline :: int
  ce_until :: "int option"

text \<open>
  The module globals, the wall clock (\<open>time.time()\<close>, in seconds), and two ghost fields:
  the remote calls issued so far, and the number of \<open>HfApi\<close> objects constructed. A
  cached \<^term>\<open>None\<close> is the explicit not-found sentinel.
\<close>

record world =
  now :: int
  hf_api_calls :: int
  hf_rate_limited_until :: "int option"
  hf_search_deadline :: int
  hf_search_time_exhausted :: bool
  hf_search_cache :: "(string \<times> hf_result option) list"
  hf_repo_files_cache :: "(string \<times> string list) list"
  remote_log :: "call_entry list"
  api_inits :: nat

definition rate_limited_now :: "world \<Rightarrow> bool" where
  "rate_limited_now w =
     (case hf_rate_limited_until w of
        None \<Rightarrow> False
      | Some u \<Rightarrow> u \<noteq> 0 \<and> now w < u)"

definition hf_search_allowed :: "config \<Rightarrow> world \<Rightarrow> bool \<times> world" where
  "hf_search_allowed cfg w =
     (if rate_limited_now w then (False, w)
      else if hf_search_deadline w \<noteq> 0 \<and> now w \<ge> hf_search_deadline w
        then (False, w\<lparr>hf_search_time_exhausted := True\<rparr>)
      else if hf_api_calls w \<ge> max_calls cfg then (False, w)
      else (True, w\<lparr>hf_api_calls := hf_api_calls w + 1\<rparr>))"

definition set_hf_rate_limited :: "config \<Rightarrow> world \<Rightarrow> world" where
  "set_hf_rate_limited cfg w =
     (case hf_rate_limited_until w of
        Some u \<Rightarrow> if u \<noteq> 0 then w
                  else w\<lparr>hf_rate_limited_until := Some (now w + rate_limit_seconds cfg)\<rparr>
      | None \<Rightarrow> w\<lparr>hf_rate_limited_until := Some (now w + rate_limit_seconds cfg)\<rparr>)"



text \<open>
  \<open>call_with_timeout(fn, ...)\<close>: the call is issued, answered by the environment, and the
  clock moves on by its duration.
\<close>

definition remote :: "hf_env \<Rightarrow> bool \<Rightarrow> remote_call \<Rightarrow> world \<Rightarrow> response \<times> world" where
  "remote env gated c w =
     (respond env (length (remote_log w)) c,
      w\<lparr>now := now w + int (elapse env (length (remote_log w)) c),
        remote_log := remote_log w
          @ [\<lparr>ce_call = c, ce_time = now w, ce_gated = gated, ce_calls = hf_api_calls w,
               ce_deadline = hf_search_deadline w, ce_until = hf_rate_limited_until w\<rparr>]\<rparr>)"

text \<open>\<open>HfApi(token=token)\<close>.\<close>

definition new_api :: "hf_env \<Rightarrow> world \<Rightarrow> exn option \<times> world" where
  "new_api env w = (api_init env (api_inits w), w\<lparr>api_inits := Suc (api_inits w)\<rparr>)"

text \<open>
  A call behind the gate: \<open>if not _hf_search_allowed(): ...\<close> and then the call.
  \<^term>\<open>None\<close> says that the gate was closed and nothing was issued.
\<close>

definition gated_call ::
  "config \<Rightarrow> hf_env \<Rightarrow> remote_call \<Rightarrow> world \<Rightarrow> response option \<times> world" where
  "gated_call cfg env c w =
     (case hf_search_allowed cfg w of
        (False, w1) \<Rightarrow> (None, w1)
      | (True, w1) \<Rightarrow> (case remote env True c w1 of (resp, w2) \<Rightarrow> (Some resp, w2)))"

definition get_repo_files ::
  "config \<Rightarrow> hf_env \<Rightarrow> string \<Rightarrow> world \<Rightarrow> (exn + string list) \<times> world" where
  "get_repo_files cfg env repo_id w =
     (case dict_get (hf_repo_files_cache w) repo_id of
        Some files \<Rightarrow> (Inr files, w)
      | None \<Rightarrow>
          (case gated_call cfg env (ListRepoFiles repo_id) w of
             (None, w1) \<Rightarrow> (Inl HFSearchBudgetError, w1)
           | (Some (Throws e), w2) \<Rightarrow>
               (Inl e, w2\<lparr>hf_repo_files_cache :=
                             dict_set (hf_repo_files_cache w2) repo_id []\<rparr>)
           | (Some (Returned files), w2) \<Rightarrow>
               (Inr files, w2\<lparr>hf_repo_files_cache :=
                                 dict_set (hf_repo_files_cache w2) repo_id files\<rparr>)))"

text \<open>The progress callback: what it is told, and whether it raises.\<close>

record status =
  message :: string
  status_source :: string
  status_filename :: "string option"
  detail :: "string option"

type_synonym callback = "(status \<Rightarrow> exn option) option"

definition notify :: "callback \<Rightarrow> status \<Rightarrow> exn option" where
  "notify status_cb payload = (case status_cb of None \<Rightarrow> None | Some f \<Rightarrow> f payload)"

section \<open>Remote search: \<open>search_huggingface_model\<close>\<close>

definition PRIORITY_AUTHORS :: "string list" where
  "PRIORITY_AUTHORS =
     [''Kijai'', ''comfyanonymous'', ''Comfy-Org'', ''city96'', ''QuantStack'',
      ''alibaba-pai'', ''unsloth'', ''nunchaku-ai'', ''black-forest-labs'']"

definition HF_SEARCH_SKIP_FILENAMES :: "string list" where
  "HF_SEARCH_SKIP_FILENAMES =
     [''pytorch_model.bin'', ''adapter_model.bin'', ''diffusion_pytorch_model.bin'',
      ''model.safetensors'', ''model.bin'', ''model.ckpt'', ''model.pt'',
      ''config.json'', ''tokenizer.json'']"

definition normalize_hf_search_key :: "string \<Rightarrow> string" where
  "normalize_hf_search_key fname = lower (basename fname)"

text \<open>\<open>str.strip()\<close> on ASCII, \<open>re.split(r"[-_]", s)\<close>, \<open>re.sub(r"\\d+", "", s)\<close>.\<close>

definition is_space :: "char \<Rightarrow> bool" where
  "is_space c = (c \<in> set [CHR '' '', CHR 0x09, CHR 0x0A, CHR 0x0B, CHR 0x0C, CHR 0x0D,
                            CHR 0x1C, CHR 0x1D, CHR 0x1E, CHR 0x1F])"

definition strip :: "string \<Rightarrow> string" where
  "strip s = rev (dropWhile is_space (rev (dropWhile is_space s)))"

fun split_on :: "(char \<Rightarrow> bool) \<Rightarrow> string \<Rightarrow> string list" where
  "split_on sep [] = [[]]"
| "split_on sep (c # cs) =
     (if sep c then [] # split_on sep cs
      else case split_on sep cs of
             [] \<Rightarrow> [[c]]
           | t # ts \<Rightarrow> (c # t) # ts)"

definition split_dash_underscore :: "string \<Rightarrow> string list" where
  "split_dash_underscore s = split_on (\<lambda>c. c = CHR ''-'' \<or> c = CHR ''_'') s"

definition is_digit :: "char \<Rightarrow> bool" where
  "is_digit c = (c \<in> set ''0123456789'')"

definition drop_digits :: "string \<Rightarrow> string" where
  "drop_digits s = filter (\<lambda>c. \<not> is_digit c) s"

definition replace_char :: "char \<Rightarrow> char \<Rightarrow> string \<Rightarrow> string" where
  "replace_char a b s = map (\<lambda>c. if c = a then b else c) s"

fun join_with :: "string \<Rightarrow> string list \<Rightarrow> string" where
  "join_with sep [] = []"
| "join_with sep [t] = t"
| "join_with sep (t # ts) = t @ sep @ join_with sep ts"

text \<open>\<open>list(dict.fromkeys(xs))\<close>: the first occurrence of each element, in order.\<close>

fun dedupe :: "'a list \<Rightarrow> 'a list \<Rightarrow> 'a list" where
  "dedupe seen [] = []"
| "dedupe seen (x # xs) = (if x \<in> set seen then dedupe seen xs else x # dedupe (x # seen) xs)"

text \<open>\<open>sorted(xs, key=k)\<close> is stable: \<open>precedes a b\<close> says that the key of \<open>a\<close> is strictly smaller.\<close>

fun insert_by :: "('a \<Rightarrow> 'a \<Rightarrow> bool) \<Rightarrow> 'a \<Rightarrow> 'a list \<Rightarrow> 'a list" where
  "insert_by precedes x [] = [x]"
| "insert_by precedes x (y # ys) =
     (if precedes y x then y # insert_by precedes x ys else x # y # ys)"

definition sorted_by :: "('a \<Rightarrow> 'a \<Rightarrow> bool) \<Rightarrow> 'a list \<Rightarrow> 'a list" where
  "sorted_by precedes xs = foldr (insert_by precedes) xs []"

definition add_term :: "string list \<Rightarrow> string \<Rightarrow> string list" where
  "add_term terms t =
     (if t = [] then terms
      else if length (strip t) < 4 \<or> strip t \<in> set terms then terms
      else terms @ [strip t])"

definition build_search_terms :: "string \<Rightarrow> string list" where
  "build_search_terms name =
     (let stem = fst (splitext name);
          terms0 = add_term [] name;
          terms1 = add_term terms0 stem;
          terms2 = add_term terms1 (replace_char (CHR ''_'') (CHR ''-'') stem);
          terms3 = add_term terms2 (replace_char (CHR ''-'') (CHR ''_'') stem);
          tokens = filter (\<lambda>t. t \<noteq> []) (split_dash_underscore stem);
          terms4 = (if length tokens \<ge> 2 then add_term terms3 (join_with ''-'' (take 2 tokens))
                    else terms3)
      in if length tokens \<ge> 3 then add_term terms4 (join_with ''-'' (take 3 tokens))
         else terms4)"

definition build_author_search_terms :: "string \<Rightarrow> string list" where
  "build_author_search_terms name =
     (let stem = fst (splitext name);
          tokens = filter (\<lambda>t. t \<noteq> []) (split_dash_underscore stem)
      in foldl (\<lambda>terms t. add_term terms (lower (drop_digits t))) (build_search_terms name) tokens)"

definition raw_hints_of_stem :: "string \<Rightarrow> string list" where
  "raw_hints_of_stem stem_lower =
     concat (map (\<lambda>t0. let t = lower (strip t0)
                        in (if length t \<ge> 3 then [t] else [])
                           @ (if length (drop_digits t) \<ge> 3 then [drop_digits t] else []))
                 (split_dash_underscore stem_lower))"

definition hints_of_stem :: "string \<Rightarrow> string list" where
  "hints_of_stem stem_lower = dedupe [] (raw_hints_of_stem stem_lower)"

definition workflow_hints_of :: "string list \<Rightarrow> string list" where
  "workflow_hints_of workflow_keywords =
     dedupe [] (filter (\<lambda>t. length t \<ge> 3) (map (\<lambda>t. lower (strip t)) workflow_keywords))"

definition repo_score :: "string \<Rightarrow> string list \<Rightarrow> string \<Rightarrow> int" where
  "repo_score fname workflow_keywords model_id =
     (let mid = lower model_id;
          stem_lower = lower (fst (splitext fname))
      in (if stem_lower \<noteq> [] \<and> contains mid stem_lower then 100 else 0)
         + 10 * int (length (filter (\<lambda>t. t \<noteq> [] \<and> contains mid t) (hints_of_stem stem_lower)))
         + 6 * int (length (filter (\<lambda>t. t \<noteq> [] \<and> contains mid t)
                              (workflow_hints_of workflow_keywords))))"

definition workflow_match :: "string list \<Rightarrow> string \<Rightarrow> bool" where
  "workflow_match workflow_keywords model_id =
     list_ex (\<lambda>t. contains (lower model_id) t) (workflow_hints_of workflow_keywords)"

text \<open>The sort keys \<open>-_repo_score(..)\<close> and \<open>(0 if _workflow_match(..) else 1, -_repo_score(..))\<close>.\<close>

definition by_score :: "string \<Rightarrow> string list \<Rightarrow> string \<Rightarrow> string \<Rightarrow> bool" where
  "by_score fname kws a b = (repo_score fname kws a > repo_score fname kws b)"

definition by_match_then_score :: "string \<Rightarrow> string list \<Rightarrow> string \<Rightarrow> string \<Rightarrow> bool" where
  "by_match_then_score fname kws a b =
     (let ka = (if workflow_match kws a then 0 else 1::int);
          kb = (if workflow_match kws b then 0 else 1::int)
      in ka < kb \<or> (ka = kb \<and> repo_score fname kws a > repo_score fname kws b))"

definition author_of :: "string \<Rightarrow> string" where
  "author_of model_id =
     (if CHR ''/'' \<in> set model_id then takeWhile (\<lambda>c. c \<noteq> CHR ''/'') model_id else [])"

definition build_result :: "string \<Rightarrow> string \<Rightarrow> hf_result" where
  "build_result model_id file_path =
     \<lparr>r_url = ''https://huggingface.co/'' @ model_id @ ''/resolve/main/'' @ file_path,
      r_repo = model_id, r_path = file_path\<rparr>"

text \<open>The notifications of the search.\<close>

definition st_searching :: "string \<Rightarrow> status" where
  "st_searching fname =
     \<lparr>message = ''Searching Hugging Face'', status_source = ''huggingface_search'',
      status_filename = Some fname, detail = None\<rparr>"

definition st_timeout :: "string \<Rightarrow> string \<Rightarrow> string \<Rightarrow> status" where
  "st_timeout src fname det =
     \<lparr>message = ''Hugging Face search timeout'', status_source = src,
      status_filename = Some fname, detail = Some det\<rparr>"

definition st_rate_limit :: "string \<Rightarrow> string \<Rightarrow> exn \<Rightarrow> status" where
  "st_rate_limit src fname e =
     \<lparr>message = ''Hugging Face rate limit hit'', status_source = src,
      status_filename = Some fname, detail = Some (exn_text e)\<rparr>"

definition st_found :: "string \<Rightarrow> string \<Rightarrow> status" where
  "st_found fname model_id =
     \<lparr>message = ''Found on Hugging Face'', status_source = ''huggingface_search'',
      status_filename = Some fname, detail = Some model_id\<rparr>"

definition st_error :: "string \<Rightarrow> exn \<Rightarrow> status" where
  "st_error fname e =
     \<lparr>message = ''Hugging Face search error'', status_source = ''huggingface_search'',
      status_filename = Some fname, detail = Some (exn_text e)\<rparr>"

definition st_checking_authors :: "string \<Rightarrow> status" where
  "st_checking_authors fname =
     \<lparr>message = ''Checking priority authors'', status_source = ''huggingface_priority_authors'',
      status_filename = Some fname, detail = None\<rparr>"

definition st_searching_author :: "string \<Rightarrow> string \<Rightarrow> string \<Rightarrow> status" where
  "st_searching_author src fname author =
     \<lparr>message = ''Searching '' @ author, status_source = src,
      status_filename = Some fname, detail = Some author\<rparr>"

text \<open>
  Where the body of the function goes next: on with a value, out of the function with its
  result (\<open>return\<close>), or to the enclosing handler with an exception.
\<close>

datatype 'a flow = Go 'a | Return "hf_result option" | Raise exn

text \<open>
  The handlers after a \<open>list_models\<close> call: a timeout and a rate-limit answer end the
  search of this filename, anything else is raised again.
\<close>

definition call_failed ::
  "config \<Rightarrow> callback \<Rightarrow> string \<Rightarrow> string \<Rightarrow> string \<Rightarrow> exn \<Rightarrow> world \<Rightarrow> 'a flow \<times> world" where
  "call_failed cfg status_cb src fname det e w =
     (if e = FuturesTimeout \<or> is_timeout_error e
      then (case notify status_cb (st_timeout src fname det) of
              Some x \<Rightarrow> (Raise x, w)
            | None \<Rightarrow> (Return None, w))
      else if is_rate_limited_error e
      then (case notify status_cb (st_rate_limit src fname e) of
              Some x \<Rightarrow> (Raise x, set_hf_rate_limited cfg w)
            | None \<Rightarrow> (Return None, set_hf_rate_limited cfg w))
      else (Raise e, w))"

text \<open>The loop over the search terms (modes \<open>basic\<close> and \<open>full\<close>).\<close>

fun term_search ::
  "config \<Rightarrow> hf_env \<Rightarrow> callback \<Rightarrow> string \<Rightarrow> string list \<Rightarrow> string list \<Rightarrow> world \<Rightarrow>
   string list flow \<times> world" where
  "term_search cfg env status_cb fname [] models w = (Go models, w)"
| "term_search cfg env status_cb fname (t # rest) models w =
     (case gated_call cfg env (ListModelsSearch t) w of
        (None, w1) \<Rightarrow> (Return None, w1)
      | (Some (Throws e), w2) \<Rightarrow>
          call_failed cfg status_cb ''huggingface_search'' fname
            (''list_models('' @ t @ '')'') e w2
      | (Some (Returned ms), w2) \<Rightarrow>
          if ms \<noteq> [] then (Go ms, w2)
          else term_search cfg env status_cb fname rest ms w2)"

text \<open>
  The direct search of the priority authors (modes \<open>priority\<close> and \<open>full\<close>). The local
  variable \<open>author_models\<close> is bound by the first answered call and keeps its last value;
  the final fallback below reads it. The body of one author runs under
  \<open>except Exception: continue\<close>.
\<close>

fun author_terms ::
  "config \<Rightarrow> hf_env \<Rightarrow> callback \<Rightarrow> string \<Rightarrow> string \<Rightarrow> string list \<Rightarrow> string list \<Rightarrow>
   string list option \<Rightarrow> world \<Rightarrow> string list flow \<times> string list option \<times> world" where
  "author_terms cfg env status_cb fname author [] found am w = (Go found, am, w)"
| "author_terms cfg env status_cb fname author (t # rest) found am w =
     (case gated_call cfg env (ListModelsAuthorSearch author t) w of
        (None, w1) \<Rightarrow> (Return None, am, w1)
      | (Some (Throws e), w2) \<Rightarrow>
          (case call_failed cfg status_cb ''huggingface_priority_authors'' fname
                  (''list_models('' @ author @ '', '' @ t @ '')'') e w2 of
             (fl, w3) \<Rightarrow> (fl, am, w3))
      | (Some (Returned ms), w2) \<Rightarrow>
          author_terms cfg env status_cb fname author rest (found @ ms) (Some ms) w2)"

definition author_body ::
  "config \<Rightarrow> hf_env \<Rightarrow> callback \<Rightarrow> string \<Rightarrow> string list \<Rightarrow> string \<Rightarrow> string list \<Rightarrow>
   string list option \<Rightarrow> world \<Rightarrow> string list flow \<times> string list option \<times> world" where
  "author_body cfg env status_cb fname kws author models am w =
     (case notify status_cb (st_searching_author ''huggingface_priority_authors'' fname author) of
        Some x \<Rightarrow> (Raise x, am, w)
      | None \<Rightarrow>
          (case author_terms cfg env status_cb fname author
                  (build_author_search_terms fname) [] am w of
             (Return v, am1, w1) \<Rightarrow> (Return v, am1, w1)
           | (Raise e, am1, w1) \<Rightarrow> (Raise e, am1, w1)
           | (Go found, am1, w1) \<Rightarrow>
               (case gated_call cfg env (ListModelsAuthor author) w1 of
                  (None, w2) \<Rightarrow> (Return None, am1, w2)
                | (Some (Throws e), w3) \<Rightarrow>
                    (case call_failed cfg status_cb ''huggingface_priority_authors'' fname
                            (''list_models('' @ author @ '')'') e w3 of
                       (fl, w4) \<Rightarrow> (fl, am1, w4))
                | (Some (Returned author_list), w3) \<Rightarrow>
                    (Go (models @ found @ sorted_by (by_score fname kws) author_list),
                     am1, w3))))"

fun authors_loop ::
  "config \<Rightarrow> hf_env \<Rightarrow> callback \<Rightarrow> string \<Rightarrow> string list \<Rightarrow> string list \<Rightarrow> string list \<Rightarrow>
   string list option \<Rightarrow> world \<Rightarrow> string list flow \<times> string list option \<times> world" where
  "authors_loop cfg env status_cb fname kws [] models am w = (Go models, am, w)"
| "authors_loop cfg env status_cb fname kws (author # rest) models am w =
     (case author_body cfg env status_cb fname kws author models am w of
        (Return v, am1, w1) \<Rightarrow> (Return v, am1, w1)
      | (Raise e, am1, w1) \<Rightarrow> authors_loop cfg env status_cb fname kws rest models am1 w1
      | (Go models1, am1, w1) \<Rightarrow> authors_loop cfg env status_cb fname kws rest models1 am1 w1)"

text \<open>
  The scan of candidate repositories for a file of the wanted name. The three loops of
  the main body share this shape; the loop of the final fallback (\<open>rate_aware\<close>) also
  reacts to a rate-limit answer. The handlers catch whatever the \<open>try\<close> block raises,
  the callback's own exception included.
\<close>

definition scan_handler ::
  "config \<Rightarrow> callback \<Rightarrow> bool \<Rightarrow> string \<Rightarrow> string \<Rightarrow> string \<Rightarrow> exn \<Rightarrow> world \<Rightarrow>
   unit flow \<times> world" where
  "scan_handler cfg status_cb rate_aware src fname model_id e w =
     (if e = HFSearchBudgetError then (Return None, w)
      else if e = FuturesTimeout \<or> is_timeout_error e
      then (case notify status_cb
                   (st_timeout src fname (''list_repo_files('' @ model_id @ '')'')) of
              Some x \<Rightarrow> (Raise x, w)
            | None \<Rightarrow> (Go (), w))
      else if rate_aware \<and> is_rate_limited_error e
      then (case notify status_cb (st_rate_limit src fname e) of
              Some x \<Rightarrow> (Raise x, set_hf_rate_limited cfg w)
            | None \<Rightarrow> (Return None, set_hf_rate_limited cfg w))
      else (Go (), w))"

definition name_matches :: "string \<Rightarrow> string \<Rightarrow> bool" where
  "name_matches fname f = (lower (basename f) = lower fname)"

fun scan_repos ::
  "config \<Rightarrow> hf_env \<Rightarrow> callback \<Rightarrow> bool \<Rightarrow> string \<Rightarrow> string \<Rightarrow> string list \<Rightarrow> world \<Rightarrow>
   unit flow \<times> world" where
  "scan_repos cfg env status_cb rate_aware src fname [] w = (Go (), w)"
| "scan_repos cfg env status_cb rate_aware src fname (model_id # rest) w =
     (case (case get_repo_files cfg env model_id w of
              (Inl e, w1) \<Rightarrow> scan_handler cfg status_cb rate_aware src fname model_id e w1
            | (Inr files, w1) \<Rightarrow>
                (case List.find (name_matches fname) files of
                   None \<Rightarrow> (Go (), w1)
                 | Some match_path \<Rightarrow>
                     (case notify status_cb (st_found fname model_id) of
                        None \<Rightarrow>
                          (Return (Some (build_result model_id match_path)),
                           w1\<lparr>hf_search_cache :=
                                 dict_set (hf_search_cache w1) (normalize_hf_search_key fname)
                                   (Some (build_result model_id match_path))\<rparr>)
                      | Some x \<Rightarrow>
                          scan_handler cfg status_cb rate_aware src fname model_id x
                            (w1\<lparr>hf_search_cache :=
                                  dict_set (hf_search_cache w1) (normalize_hf_search_key fname)
                                    (Some (build_result model_id match_path))\<rparr>)))) of
        (Go u, w2) \<Rightarrow> scan_repos cfg env status_cb rate_aware src fname rest w2
      | (Return v, w2) \<Rightarrow> (Return v, w2)
      | (Raise e, w2) \<Rightarrow> (Raise e, w2))"

text \<open>
  The final fallback over the priority authors. An answer other than a timeout leaves
  \<open>author_models\<close> as it was; reading it unbound raises.
\<close>

fun final_authors ::
  "config \<Rightarrow> hf_env \<Rightarrow> callback \<Rightarrow> string \<Rightarrow> string list \<Rightarrow> string list option \<Rightarrow> world \<Rightarrow>
   unit flow \<times> world" where
  "final_authors cfg env status_cb fname [] am w = (Go (), w)"
| "final_authors cfg env status_cb fname (author # rest) am w =
     (case gated_call cfg env (ListModelsAuthor author) w of
        (None, w1) \<Rightarrow> (Return None, w1)
      | (Some (Throws e), w2) \<Rightarrow>
          (if e = FuturesTimeout \<or> is_timeout_error e
           then (case notify status_cb
                        (st_timeout ''huggingface_priority_authors'' fname
                           (''list_models('' @ author @ '')'')) of
                   Some x \<Rightarrow> (Raise x, w2)
                 | None \<Rightarrow> (Return None, w2))
           else (case am of
                   None \<Rightarrow> (Raise UnboundLocalError, w2)
                 | Some author_models \<Rightarrow>
                     (case scan_repos cfg env status_cb True ''huggingface_priority_authors''
                             fname author_models w2 of
                        (Go u, w3) \<Rightarrow> final_authors cfg env status_cb fname rest am w3
                      | (Return v, w3) \<Rightarrow> (Return v, w3)
                      | (Raise x, w3) \<Rightarrow> (Raise x, w3))))
      | (Some (Returned author_models), w2) \<Rightarrow>
          (case scan_repos cfg env status_cb True ''huggingface_priority_authors''
                  fname author_models w2 of
             (Go u, w3) \<Rightarrow>
               final_authors cfg env status_cb fname rest (Some author_models) w3
           | (Return v, w3) \<Rightarrow> (Return v, w3)
           | (Raise x, w3) \<Rightarrow> (Raise x, w3)))"

text \<open>
  The body of the \<open>try\<close> block. \<open>mode\<close> is the string the caller passes;
  \<open>priority_author_repos\<close> is the prefetched dict or \<^term>\<open>None\<close>.
\<close>

definition repos_truthy :: "(string \<times> string list) list option \<Rightarrow> bool" where
  "repos_truthy priority_author_repos =
     (case priority_author_repos of None \<Rightarrow> False | Some d \<Rightarrow> d \<noteq> [])"

definition repos_of_authors :: "(string \<times> string list) list \<Rightarrow> string list" where
  "repos_of_authors d =
     concat (map (\<lambda>author. case dict_get d author of None \<Rightarrow> [] | Some ids \<Rightarrow> ids)
                 PRIORITY_AUTHORS)"

definition priority_models_of ::
  "config \<Rightarrow> string \<Rightarrow> string list \<Rightarrow> (string \<times> string list) list option \<Rightarrow> bool \<Rightarrow>
   string list \<Rightarrow> string list" where
  "priority_models_of cfg fname kws priority_author_repos skip_priority_repo_scan models =
     (let ids0 = (if repos_truthy priority_author_repos \<and> \<not> skip_priority_repo_scan
                  then repos_of_authors (the priority_author_repos) else []);
          ids1 = dedupe [] ids0;
          ids2 = (if ids1 \<noteq> []
                  then (if repo_scan_limit cfg > 0
                        then take (nat (repo_scan_limit cfg))
                               (sorted_by (by_match_then_score fname kws) ids1)
                        else sorted_by (by_match_then_score fname kws) ids1)
                  else ids1)
      in sorted_by (by_match_then_score fname kws)
           (if ids2 \<noteq> [] then ids2
            else filter (\<lambda>m. author_of m \<in> set PRIORITY_AUTHORS) models))"

definition search_body ::
  "config \<Rightarrow> hf_env \<Rightarrow> callback \<Rightarrow> string \<Rightarrow> string \<Rightarrow> string list \<Rightarrow>
   (string \<times> string list) list option \<Rightarrow> bool \<Rightarrow> world \<Rightarrow> unit flow \<times> world" where
  "search_body cfg env status_cb fname mode kws priority_author_repos skip_priority_repo_scan w =
     (case notify status_cb (st_searching fname) of
        Some x \<Rightarrow> (Raise x, w)
      | None \<Rightarrow>
     (case (if mode = ''basic'' \<or> mode = ''full''
            then term_search cfg env status_cb fname (build_search_terms fname) [] w
            else (Go [], w)) of
        (Return v, w1) \<Rightarrow> (Return v, w1)
      | (Raise e, w1) \<Rightarrow> (Raise e, w1)
      | (Go models0, w1) \<Rightarrow>
     (case (if (mode = ''priority'' \<or> mode = ''full'') \<and> models0 = []
               \<and> \<not> repos_truthy priority_author_repos
            then (case notify status_cb (st_checking_authors fname) of
                    Some x \<Rightarrow> (Raise x, None, w1)
                  | None \<Rightarrow>
                      authors_loop cfg env status_cb fname kws PRIORITY_AUTHORS models0 None w1)
            else (Go models0, None, w1)) of
        (Return v, am, w2) \<Rightarrow> (Return v, w2)
      | (Raise e, am, w2) \<Rightarrow> (Raise e, w2)
      | (Go models1, am, w2) \<Rightarrow>
     (let models = dedupe [] models1;
          priority_models = priority_models_of cfg fname kws priority_author_repos
                              skip_priority_repo_scan models;
          other_models = filter (\<lambda>m. m \<notin> set priority_models) models;
          other_workflow = sorted_by (by_score fname kws)
                             (filter (workflow_match kws) other_models);
          other_rest = sorted_by (by_score fname kws)
                         (filter (\<lambda>m. m \<notin> set other_workflow) other_models)
      in
     (case scan_repos cfg env status_cb False ''huggingface_search'' fname priority_models w2 of
        (Return v, w3) \<Rightarrow> (Return v, w3)
      | (Raise e, w3) \<Rightarrow> (Raise e, w3)
      | (Go u3, w3) \<Rightarrow>
     (case scan_repos cfg env status_cb False ''huggingface_search'' fname other_workflow w3 of
        (Return v, w4) \<Rightarrow> (Return v, w4)
      | (Raise e, w4) \<Rightarrow> (Raise e, w4)
      | (Go u4, w4) \<Rightarrow>
     (case scan_repos cfg env status_cb False ''huggingface_search'' fname other_rest w4 of
        (Return v, w5) \<Rightarrow> (Return v, w5)
      | (Raise e, w5) \<Rightarrow> (Raise e, w5)
      | (Go u5, w5) \<Rightarrow>
          (if (mode = ''priority'' \<or> mode = ''full'') \<and> \<not> repos_truthy priority_author_repos
           then final_authors cfg env status_cb fname PRIORITY_AUTHORS am w5
           else (Go (), w5)))))))))"

text \<open>What follows the \<open>try\<close> statement.\<close>

definition search_epilogue ::
  "string \<Rightarrow> string \<Rightarrow> world \<Rightarrow> (exn + hf_result option) \<times> world" where
  "search_epilogue mode key w =
     (if rate_limited_now w then (Inr None, w)
      else if mode \<noteq> ''basic''
        then (Inr None, w\<lparr>hf_search_cache := dict_set (hf_search_cache w) key None\<rparr>)
      else (Inr None, w))"

text \<open>The function after its cache lookup.\<close>

definition search_uncached ::
  "config \<Rightarrow> hf_env \<Rightarrow> callback \<Rightarrow> string \<Rightarrow> string \<Rightarrow> string list \<Rightarrow>
   (string \<times> string list) list option \<Rightarrow> bool \<Rightarrow> world \<Rightarrow> (exn + hf_result option) \<times> world" where
  "search_uncached cfg env status_cb fname mode kws priority_author_repos skip_priority_repo_scan w =
     (let key = normalize_hf_search_key fname
      in if key \<in> set HF_SEARCH_SKIP_FILENAMES
         then (Inr None, w\<lparr>hf_search_cache := dict_set (hf_search_cache w) key None\<rparr>)
         else if rate_limited_now w then (Inr None, w)
         else if hf_api_calls w \<ge> max_calls cfg then (Inr None, w)
         else case notify status_cb (st_searching fname) of
                Some x \<Rightarrow> (Inl x, w)
              | None \<Rightarrow>
                  (case search_body cfg env status_cb fname mode kws priority_author_repos
                          skip_priority_repo_scan w of
                     (Return v, w1) \<Rightarrow> (Inr v, w1)
                   | (Go u, w1) \<Rightarrow> search_epilogue mode key w1
                   | (Raise e, w1) \<Rightarrow>
                       (if is_rate_limited_error e
                        then (case notify status_cb
                                     (st_rate_limit ''huggingface_search'' fname e) of
                                Some x \<Rightarrow> (Inl x, set_hf_rate_limited cfg w1)
                              | None \<Rightarrow> search_epilogue mode key (set_hf_rate_limited cfg w1))
                        else (case notify status_cb (st_error fname e) of
                                Some x \<Rightarrow> (Inl x, w1)
                              | None \<Rightarrow> search_epilogue mode key w1))))"

definition search_huggingface_model ::
  "config \<Rightarrow> hf_env \<Rightarrow> callback \<Rightarrow> string \<Rightarrow> string \<Rightarrow> string list \<Rightarrow>
   (string \<times> string list) list option \<Rightarrow> bool \<Rightarrow> world \<Rightarrow> (exn + hf_result option) \<times> world" where
  "search_huggingface_model cfg env status_cb fname mode kws priority_author_repos
       skip_priority_repo_scan w =
     (case new_api env w of
        (Some e, w0) \<Rightarrow> (Inl e, w0)
      | (None, w0) \<Rightarrow>
          (case dict_get (hf_search_cache w0) (normalize_hf_search_key fname) of
             Some (Some cached) \<Rightarrow> (Inr (Some cached), w0)
           | Some None \<Rightarrow>
               (if mode = ''basic'' then (Inr None, w0)
                else search_uncached cfg env status_cb fname mode kws priority_author_repos
                       skip_priority_repo_scan w0)
           | None \<Rightarrow>
               search_uncached cfg env status_cb fname mode kws priority_author_repos
                 skip_priority_repo_scan w0))"

section \<open>The start of a run\<close>

text \<open>The first assignments of \<open>process_workflow_for_missing_models\<close>.\<close>

definition begin_run :: "world \<Rightarrow> world" where
  "begin_run w =
     w\<lparr>hf_api_calls := 0,
       hf_search_deadline := 0,
       hf_search_time_exhausted := False,
       hf_rate_limited_until := None,
       hf_repo_files_cache := []\<rparr>"

text \<open>A fresh process, default knobs, and an environment that answers every call with nothing.\<close>

definition fresh_world :: world where
  "fresh_world =
     \<lparr>now = 1000, hf_api_calls = 0, hf_rate_limited_until = Some 0, hf_search_deadline = 0,
      hf_search_time_exhausted = False, hf_search_cache = [], hf_repo_files_cache = [],
      remote_log = [], api_inits = 0\<rparr>"

definition default_config :: config where
  "default_config =
     \<lparr>max_calls = 200, rate_limit_seconds = 300, max_seconds = 60, repo_scan_limit = 100\<rparr>"

definition silent_env :: hf_env where
  "silent_env =
     \<lparr>respond = (\<lambda>k c. Returned []), elapse = (\<lambda>k c. 1), api_init = (\<lambda>k. None)\<rparr>"

definition generic_hit :: hf_result where
  "generic_hit = build_result ''Kijai/some-repo'' ''model.safetensors''"

section \<open>URLs and filenames\<close>

definition MODEL_EXTENSIONS :: "string list" where
  "MODEL_EXTENSIONS = [''.safetensors'', ''.ckpt'', ''.pt'', ''.bin'', ''.pth'', ''.gguf'']"

definition has_model_ext :: "string \<Rightarrow> bool" where
  "has_model_ext s = list_ex (endswith s) MODEL_EXTENSIONS"

definition is_http :: "string \<Rightarrow> bool" where
  "is_http s = (startswith s ''http://'' \<or> startswith s ''https://'')"

text \<open>\<open>val.split("?")[0].split("/")[-1]\<close> and \<open>url.split("/")[-1].split("?")[0]\<close>.\<close>

definition url_filename :: "string \<Rightarrow> string" where
  "url_filename v = basename (takeWhile (\<lambda>c. c \<noteq> CHR ''?'') v)"

definition url_last_segment :: "string \<Rightarrow> string" where
  "url_last_segment v = takeWhile (\<lambda>c. c \<noteq> CHR ''?'') (basename v)"

definition strip_slashes :: "string \<Rightarrow> string" where
  "strip_slashes s =
     rev (dropWhile (\<lambda>c. c = CHR ''/'') (rev (dropWhile (\<lambda>c. c = CHR ''/'') s)))"

definition normalize_filename_key :: "string \<Rightarrow> string" where
  "normalize_filename_key name = lower (strip (basename (unbackslash name)))"

definition normalize_filename_compact :: "string \<Rightarrow> string" where
  "normalize_filename_compact name =
     filter (\<lambda>c. c \<noteq> CHR ''-'' \<and> c \<noteq> CHR ''_'') (normalize_filename_key name)"

definition split_model_identifier :: "string \<Rightarrow> string \<times> string option" where
  "split_model_identifier v =
     (let normalized = strip (unbackslash v)
      in if normalized = [] then ([], None) else (basename normalized, Some normalized))"

definition looks_like_model_widget_value :: "string \<Rightarrow> string \<Rightarrow> bool" where
  "looks_like_model_widget_value v node_type =
     (if has_model_ext v then True
      else if contains (lower node_type) ''nunchaku'' \<and> is_nunchaku_svdq_name (Some v) then True
      else False)"

text \<open>
  \<open>extract_huggingface_info\<close>: \<open>re.search\<close> of
  \<open>huggingface\\.co/([^/]+/[^/]+)/(?:resolve|blob)/[^/]+/(.+?)(?:\\?|$)\<close>. After the host
  come two non-empty segments, \<open>resolve\<close> or \<open>blob\<close>, a non-empty revision segment, and
  the path: the shortest non-empty run without a newline that a \<open>?\<close> or the end of the
  string (or its final newline) follows.
\<close>

definition newline :: char where
  "newline = CHR 0x0A"

definition segment :: "string \<Rightarrow> (string \<times> string) option" where
  "segment s =
     (let seg = takeWhile (\<lambda>c. c \<noteq> CHR ''/'') s; rest = drop (length seg) s
      in if seg \<noteq> [] \<and> rest \<noteq> [] then Some (seg, tl rest) else None)"

fun lazy_path :: "string \<Rightarrow> string \<Rightarrow> string option" where
  "lazy_path acc [] = (if acc \<noteq> [] then Some (rev acc) else None)"
| "lazy_path acc (c # cs) =
     (if acc \<noteq> [] \<and> (c = CHR ''?'' \<or> (c = newline \<and> cs = [])) then Some (rev acc)
      else if c = newline then None
      else lazy_path (c # acc) cs)"

definition hf_info_at :: "string \<Rightarrow> (string \<times> string) option" where
  "hf_info_at s =
     (case segment s of
        None \<Rightarrow> None
      | Some (owner, s1) \<Rightarrow>
          (case segment s1 of
             None \<Rightarrow> None
           | Some (name, s2) \<Rightarrow>
               (case segment s2 of
                  None \<Rightarrow> None
                | Some (kind, s3) \<Rightarrow>
                    if kind = ''resolve'' \<or> kind = ''blob''
                    then (case segment s3 of
                            None \<Rightarrow> None
                          | Some (rev_name, s4) \<Rightarrow>
                              (case lazy_path [] s4 of
                                 None \<Rightarrow> None
                               | Some p \<Rightarrow> Some (owner @ ''/'' @ name, p)))
                    else None)))"

fun hf_info_search :: "string \<Rightarrow> (string \<times> string) option" where
  "hf_info_search [] = None"
| "hf_info_search (c # cs) =
     (if startswith (c # cs) ''huggingface.co/''
      then (case hf_info_at (drop 15 (c # cs)) of
              Some r \<Rightarrow> Some r
            | None \<Rightarrow> hf_info_search cs)
      else hf_info_search cs)"

definition extract_huggingface_info :: "string \<Rightarrow> (string \<times> string) option" where
  "extract_huggingface_info u =
     (if u = [] \<or> \<not> contains u ''huggingface.co'' then None else hf_info_search u)"

text \<open>
  \<open>parse_link\<close>. The standard library's \<open>urlparse\<close> is a parameter: it gives the scheme
  and the path of a link, or \<^term>\<open>None\<close> where it raises.
\<close>

type_synonym urlparser = "string \<Rightarrow> (string \<times> string) option"

record parsed_link =
  pl_repo :: string
  pl_subfolder :: "string option"
  pl_file :: "string option"

definition split_slash :: "string \<Rightarrow> string list" where
  "split_slash s = split_on (\<lambda>c. c = CHR ''/'') s"

fun index_of :: "'a \<Rightarrow> 'a list \<Rightarrow> nat" where
  "index_of x [] = 0"
| "index_of x (y # ys) = (if x = y then 0 else Suc (index_of x ys))"

definition file_parts :: "string \<Rightarrow> string list \<Rightarrow> string \<Rightarrow> parsed_link" where
  "file_parts repo path_parts keyword =
     (let remaining = drop (index_of keyword path_parts + 2) path_parts
      in if remaining = [] then \<lparr>pl_repo = repo, pl_subfolder = None, pl_file = None\<rparr>
         else \<lparr>pl_repo = repo,
               pl_subfolder = (if length remaining > 1
                               then Some (join_with ''/'' (butlast remaining)) else None),
               pl_file = Some (last remaining)\<rparr>)"

definition parse_link :: "urlparser \<Rightarrow> string \<Rightarrow> parsed_link option" where
  "parse_link urlparse link =
     (case urlparse link of
        None \<Rightarrow> None
      | Some (scheme, path) \<Rightarrow>
          (let path_parts = (if scheme \<noteq> [] then split_slash (strip_slashes path)
                             else split_slash (strip_slashes link))
           in if length path_parts < 2 then None
              else let repo = path_parts ! 0 @ ''/'' @ path_parts ! 1
                   in if ''resolve'' \<in> set path_parts
                        then Some (file_parts repo path_parts ''resolve'')
                      else if ''blob'' \<in> set path_parts
                        then Some (file_parts repo path_parts ''blob'')
                      else if ''tree'' \<in> set path_parts
                        then Some \<lparr>pl_repo = repo,
                                   pl_subfolder =
                                     (if length path_parts > index_of ''tree'' path_parts + 2
                                      then Some (join_with ''/''
                                                  (drop (index_of ''tree'' path_parts + 2) path_parts))
                                      else None),
                                   pl_file = None\<rparr>
                      else if length path_parts > 2
                        then (if CHR ''.'' \<in> set (last path_parts)
                              then Some \<lparr>pl_repo = repo,
                                         pl_subfolder =
                                           Some (join_with ''/'' (butlast (drop 2 path_parts))),
                                         pl_file = Some (last path_parts)\<rparr>
                              else Some \<lparr>pl_repo = repo,
                                         pl_subfolder = Some (join_with ''/'' (drop 2 path_parts)),
                                         pl_file = None\<rparr>)
                      else Some \<lparr>pl_repo = repo, pl_subfolder = None, pl_file = None\<rparr>))"

definition extract_hf_repo_and_path :: "urlparser \<Rightarrow> string \<Rightarrow> (string \<times> string) option" where
  "extract_hf_repo_and_path urlparse u =
     (case extract_huggingface_info u of
        Some (repo, path) \<Rightarrow>
          (if repo \<noteq> [] \<and> path \<noteq> [] then Some (repo, path) else None)
      | None \<Rightarrow>
          (case parse_link urlparse u of
             None \<Rightarrow> None
           | Some parsed \<Rightarrow>
               if pl_repo parsed = [] \<or> \<not> truthy (pl_file parsed) then None
               else let subfolder = strip_slashes (or_else (pl_subfolder parsed) [])
                    in if subfolder \<noteq> []
                       then Some (pl_repo parsed, subfolder @ ''/'' @ the (pl_file parsed))
                       else Some (pl_repo parsed, the (pl_file parsed))))"

definition is_specific_model_file_url :: "urlparser \<Rightarrow> string \<Rightarrow> string option \<Rightarrow> bool" where
  "is_specific_model_file_url urlparse u expected_filename =
     (case extract_hf_repo_and_path urlparse u of
        None \<Rightarrow> False
      | Some (repo, path) \<Rightarrow>
          (let file_name = strip (basename (unbackslash path))
           in if file_name = [] then False
              else if \<not> has_model_ext (lower file_name) then False
              else if truthy expected_filename
                      \<and> lower (strip (basename (unbackslash (the expected_filename)))) \<noteq> []
                      \<and> lower (strip (basename (unbackslash (the expected_filename))))
                          \<noteq> lower file_name
                then False
              else True))"

section \<open>GraphReferenceExtractor\<close>

text \<open>
  A workflow node, with the fields the extractor reads and the types it expects there.
  \<^term>\<open>None\<close> is an absent key. A widget value is a string or some other JSON value; a
  \<open>widgets_values\<close> that is a dict is kept with its keys, which is what a \<open>for\<close> loop
  over it sees. A \<open>proxyWidgets\<close> item gives a widget name when it is a list of at least
  two elements.
\<close>

datatype wvalue = WStr string | WOther

datatype widgets = WList "wvalue list" | WDict "string list"

record input_item =
  in_name :: "string option"
  in_link :: "int option"
  in_widget :: bool

record model_info =
  mi_name :: "string option"
  mi_url :: "string option"
  mi_directory :: "string option"

record node =
  n_id :: "int option"
  n_type :: "string option"
  n_title :: "string option"
  n_mode :: "int option"
  n_cnr_id :: "string option"
  n_models :: "model_info list option"
  n_proxy_widgets :: "string option list option"
  n_widgets_values :: "widgets option"
  n_inputs :: "input_item list option"

definition NODE_TYPE_MAPPING :: "(string \<times> string) list" where
  "NODE_TYPE_MAPPING =
     [(''UNETLoader'', ''diffusion_models''), (''UnetLoaderGGUF'', ''diffusion_models''),
      (''LoraLoader'', ''loras''), (''LoraLoaderModelOnly'', ''loras''),
      (''VAELoader'', ''vae''), (''CLIPLoader'', ''text_encoders''),
      (''ControlNetLoader'', ''controlnet''), (''DiffControlNetLoader'', ''controlnet''),
      (''CheckpointLoaderSimple'', ''checkpoints''), (''CheckpointLoader'', ''checkpoints''),
      (''DualCLIPLoader'', ''text_encoders''), (''CLIPVisionLoader'', ''clip_vision''),
      (''UpscaleModelLoader'', ''upscale_models''), (''ESAModelLoader'', ''upscale_models''),
      (''StyleModelLoader'', ''style_models''), (''GligenLoader'', ''gligen''),
      (''DiffusersLoader'', ''diffusion_models''), (''GLIGENLoader'', ''gligen''),
      (''WanVideoLoraSelect'', ''loras''), (''WanVideoLoraSelectByName'', ''loras''),
      (''WanVideoLoraSelectMulti'', ''loras''),
      (''WanVideoVACEModelSelect'', ''diffusion_models''),
      (''WanVideoExtraModelSelect'', ''diffusion_models''),
      (''LoaderGGUF'', ''diffusion_models''), (''LoaderGGUFAdvanced'', ''diffusion_models''),
      (''ClipLoaderGGUF'', ''text_encoders''), (''DualClipLoaderGGUF'', ''text_encoders''),
      (''TripleClipLoaderGGUF'', ''text_encoders''),
      (''QuadrupleClipLoaderGGUF'', ''text_encoders''), (''VAELoaderGGUF'', ''vae''),
      (''VAELoaderKJ'', ''vae''), (''CLIPLoaderKJ'', ''text_encoders''),
      (''DualCLIPLoaderKJ'', ''text_encoders''), (''UnetLoaderKJ'', ''diffusion_models''),
      (''LoraLoaderKJ'', ''loras''),
      (''NunchakuFluxDiTLoader'', ''diffusion_models''),
      (''NunchakuQwenImageDiTLoader'', ''diffusion_models''),
      (''NunchakuZImageDiTLoader'', ''diffusion_models''),
      (''NunchakuTextEncoderLoader'', ''text_encoders''),
      (''NunchakuTextEncoderLoaderV2'', ''text_encoders''),
      (''NunchakuFluxLoraLoader'', ''loras''), (''NunchakuFluxLoraStack'', ''loras''),
      (''NunchakuIPAdapterLoader'', ''ipadapter''), (''NunchakuPulidLoader'', ''pulid''),
      (''NunchakuPuLIDLoaderV2'', ''pulid''),
      (''IPAdapterPlus'', ''ipadapter''), (''IPAdapterUnifiedLoader'', ''ipadapter''),
      (''ADE_AnimateDiffLoaderGen1'', ''animatediff_models''),
      (''ADE_AnimateDiffLoaderWithContext'', ''animatediff_models''),
      (''CheckpointLoaderNF4'', ''checkpoints''), (''LoadFluxControlNet'', ''xlabs_controlnets''),
      (''MMAudioModelLoader'', ''mmaudio''), (''PulidModelLoader'', ''pulid''),
      (''Florence2ModelLoader'', ''LLM''), (''DownloadAndLoadFlorence2Model'', ''LLM'')]"

definition node_type_of :: "node \<Rightarrow> string" where
  "node_type_of n = (case n_type n of None \<Rightarrow> [] | Some t \<Rightarrow> t)"

definition resolve_node_folder :: "node \<Rightarrow> string option" where
  "resolve_node_folder n =
     (case map_of NODE_TYPE_MAPPING (node_type_of n) of
        Some folder \<Rightarrow> Some folder
      | None \<Rightarrow>
          (let cnr_id = lower (or_else (n_cnr_id n) []);
               node_type_lower = lower (node_type_of n)
           in if contains node_type_lower ''gguf'' \<or> contains cnr_id ''gguf''
              then (if contains node_type_lower ''clip'' then Some ''text_encoders''
                    else if contains node_type_lower ''vae'' then Some ''vae''
                    else if contains node_type_lower ''lora'' then Some ''loras''
                    else Some ''diffusion_models'')
              else if contains cnr_id ''kjnodes''
              then (if contains node_type_lower ''clip'' then Some ''text_encoders''
                    else if contains node_type_lower ''vae'' then Some ''vae''
                    else if contains node_type_lower ''lora'' then Some ''loras''
                    else if contains node_type_lower ''unet'' \<or> contains node_type_lower ''model''
                      then Some ''diffusion_models''
                    else None)
              else None))"

definition resolve_proxy_widget_folder :: "string option \<Rightarrow> string option" where
  "resolve_proxy_widget_folder widget_name =
     (if \<not> truthy widget_name then None
      else let name = lower (the widget_name)
           in if contains name ''unet'' then Some ''diffusion_models''
              else if contains name ''clip'' then Some ''text_encoders''
              else if contains name ''vae'' then Some ''vae''
              else if contains name ''lora'' then Some ''loras''
              else if contains name ''checkpoint'' \<or> contains name ''ckpt'' then Some ''checkpoints''
              else None)"

text \<open>
  \<open>is_subgraph_node\<close>: the type is a UUID, \<open>re.match\<close> with \<open>re.IGNORECASE\<close>; the
  closing \<open>$\<close> also matches before a final newline.
\<close>

definition is_hex :: "char \<Rightarrow> bool" where
  "is_hex c = (c \<in> set ''0123456789abcdefABCDEF'')"

definition uuid_shape :: "string \<Rightarrow> bool" where
  "uuid_shape s =
     (length s = 36
      \<and> list_all (\<lambda>(i, c). if i \<in> set [8, 13, 18, 23] then c = CHR ''-'' else is_hex c)
                  (zip [0..<36] s))"

definition is_subgraph_node :: "string \<Rightarrow> bool" where
  "is_subgraph_node node_type =
     (uuid_shape node_type
      \<or> (node_type \<noteq> [] \<and> last node_type = newline \<and> uuid_shape (butlast node_type)))"

text \<open>The reference dicts that the extractor builds.\<close>

definition make_ref ::
  "string \<Rightarrow> string option \<Rightarrow> string option \<Rightarrow> int option \<Rightarrow> string option \<Rightarrow>
   string option \<Rightarrow> string option \<Rightarrow> model_ref" where
  "make_ref fname req u nid title folder orig =
     empty_ref\<lparr>filename := Some fname, requested_path := req, url := u, node_id := nid,
               node_title := title, suggested_folder := folder, origin := orig\<rparr>"

text \<open>\<open>collect_proxy_widget_models\<close>, one widget slot at a time.\<close>

definition proxy_widget_model ::
  "string option list \<Rightarrow> nat list \<Rightarrow> string list \<Rightarrow> nat \<times> wvalue \<Rightarrow>
   (string \<times> string option \<times> string option \<times> string option) list" where
  "proxy_widget_model proxy linked_widget_indices linked_widget_names slot =
     (case slot of (idx, v) \<Rightarrow>
        let widget_name = (if idx < length proxy then proxy ! idx else None)
        in if linked_widget_names \<noteq> [] \<and> truthy widget_name
              \<and> the widget_name \<in> set linked_widget_names then []
           else if linked_widget_indices \<noteq> [] \<and> idx \<in> set linked_widget_indices
              \<and> \<not> truthy widget_name then []
           else case v of
                  WOther \<Rightarrow> []
                | WStr s \<Rightarrow>
                    if is_http s
                    then (if \<not> has_model_ext (url_filename s) then []
                          else [(url_filename s, None, Some s,
                                 resolve_proxy_widget_folder widget_name)])
                    else if \<not> has_model_ext s then []
                    else [(fst (split_model_identifier s), snd (split_model_identifier s), None,
                           resolve_proxy_widget_folder widget_name)])"

definition collect_proxy_widget_models ::
  "node \<Rightarrow> nat list \<Rightarrow> string list \<Rightarrow>
   (string \<times> string option \<times> string option \<times> string option) list" where
  "collect_proxy_widget_models n linked_widget_indices linked_widget_names =
     (case (n_proxy_widgets n, n_widgets_values n) of
        (Some proxy, Some (WList ws)) \<Rightarrow>
          concat (map (proxy_widget_model proxy linked_widget_indices linked_widget_names)
                      (zip [0..<length ws] ws))
      | _ \<Rightarrow> [])"

text \<open>
  Markdown links \<open>[label](url)\<close> of a note:
  \<open>re.findall(r'\\[([^\\]]+)\\]\\((https?://[^)]+)\\)', val, re.IGNORECASE)\<close>.
  \<open>link_at\<close> matches right after an opening bracket and also gives the number of
  characters it has consumed.
\<close>

definition link_at :: "string \<Rightarrow> (string \<times> string \<times> nat) option" where
  "link_at s =
     (let label = takeWhile (\<lambda>c. c \<noteq> CHR '']'') s;
          rest = drop (length label) s;
          target = drop 2 rest;
          scheme_len = (if lower (take 8 target) = ''https://'' then 8
                        else if lower (take 7 target) = ''http://'' then 7 else 0);
          body = takeWhile (\<lambda>c. c \<noteq> CHR '')'') (drop scheme_len target)
      in if label \<noteq> [] \<and> take 2 rest = ''](''
            \<and> scheme_len > 0 \<and> body \<noteq> []
            \<and> take 1 (drop (scheme_len + length body) target) = '')''
         then Some (label, take (scheme_len + length body) target,
                    length label + 2 + scheme_len + length body + 1)
         else None)"

fun markdown_links :: "nat \<Rightarrow> string \<Rightarrow> (string \<times> string) list" where
  "markdown_links skip [] = []"
| "markdown_links skip (c # cs) =
     (if skip > 0 then markdown_links (skip - 1) cs
      else if c = CHR ''[''
      then (case link_at cs of
              Some (label, target, used) \<Rightarrow> (label, target) # markdown_links used cs
            | None \<Rightarrow> markdown_links 0 cs)
      else markdown_links 0 cs)"

definition dict_setdefault :: "('k \<times> 'v) list \<Rightarrow> 'k \<Rightarrow> 'v \<Rightarrow> ('k \<times> 'v) list" where
  "dict_setdefault d k v = (if k \<in> fst ` set d then d else d @ [(k, v)])"

type_synonym note_index = "(string \<times> string) list \<times> (string \<times> string) list"

definition note_link :: "urlparser \<Rightarrow> note_index \<Rightarrow> string \<times> string \<Rightarrow> note_index" where
  "note_link urlparse idx link =
     (case link of (label, target) \<Rightarrow>
        if \<not> is_specific_model_file_url urlparse target None then idx
        else foldl (\<lambda>(note_links, note_links_normalized) fname.
                      (dict_setdefault note_links (normalize_filename_key fname) target,
                       dict_setdefault note_links_normalized
                         (normalize_filename_compact fname) target))
               idx
               ((if has_model_ext (lower (url_filename target)) then [url_filename target] else [])
                @ (if has_model_ext (lower label) then [label] else [])))"

definition note_strings :: "node \<Rightarrow> string list" where
  "note_strings n =
     (case n_widgets_values n of
        None \<Rightarrow> []
      | Some (WDict keys) \<Rightarrow> keys
      | Some (WList ws) \<Rightarrow> concat (map (\<lambda>v. case v of WStr s \<Rightarrow> [s] | WOther \<Rightarrow> []) ws))"

definition collect_note_links :: "urlparser \<Rightarrow> node \<Rightarrow> note_index \<Rightarrow> note_index" where
  "collect_note_links urlparse n idx =
     foldl (note_link urlparse) idx (concat (map (markdown_links 0) (note_strings n)))"

text \<open>The widget inputs of a node that a link feeds: their widget positions and names.\<close>

fun linked_widgets :: "input_item list \<Rightarrow> nat \<Rightarrow> nat list \<times> string list" where
  "linked_widgets [] widget_pos = ([], [])"
| "linked_widgets (item # rest) widget_pos =
     (if in_widget item
      then (case linked_widgets rest (Suc widget_pos) of
              (idxs, names) \<Rightarrow>
                if in_link item \<noteq> None
                then (widget_pos # idxs,
                      (if truthy (in_name item) then [the (in_name item)] else []) @ names)
                else (idxs, names))
      else linked_widgets rest widget_pos)"

definition inputs_of :: "node \<Rightarrow> input_item list" where
  "inputs_of n = (case n_inputs n of None \<Rightarrow> [] | Some xs \<Rightarrow> xs)"

definition widget_list :: "node \<Rightarrow> (nat \<times> wvalue) list" where
  "widget_list n =
     (case n_widgets_values n of
        Some (WList ws) \<Rightarrow> zip [0..<length ws] ws
      | _ \<Rightarrow> [])"

definition widget_model_key :: "string \<Rightarrow> nat list \<Rightarrow> nat \<times> wvalue \<Rightarrow> string list" where
  "widget_model_key node_type linked_widget_indices slot =
     (case slot of (idx, v) \<Rightarrow>
        if idx \<in> set linked_widget_indices then []
        else case v of
               WOther \<Rightarrow> []
             | WStr raw_val \<Rightarrow>
                 (let val = strip raw_val
                  in if val = [] then []
                     else if is_http val
                       then (if has_model_ext (lower (url_filename val))
                             then [normalize_filename_key (url_filename val)] else [])
                     else if looks_like_model_widget_value val node_type
                       then (if fst (split_model_identifier val) \<noteq> []
                             then [normalize_filename_key (fst (split_model_identifier val))]
                             else [])
                     else []))"

definition widget_model_keys :: "node \<Rightarrow> nat list \<Rightarrow> string list" where
  "widget_model_keys n linked_widget_indices =
     concat (map (widget_model_key (node_type_of n) linked_widget_indices) (widget_list n))"

definition has_ref :: "model_ref list \<Rightarrow> string \<Rightarrow> int option \<Rightarrow> bool" where
  "has_ref found_models fname nid =
     list_ex (\<lambda>m. filename m = Some fname \<and> node_id m = nid) found_models"

definition node_title_of :: "node \<Rightarrow> string \<Rightarrow> string" where
  "node_title_of n node_title_fallback =
     (if truthy (n_title n) then the (n_title n)
      else case n_type n of None \<Rightarrow> node_title_fallback | Some t \<Rightarrow> t)"

text \<open>The special case of the node \<open>Hugging Face Download Model\<close>.\<close>

definition hf_download_ref :: "node \<Rightarrow> string \<Rightarrow> model_ref option" where
  "hf_download_ref n title =
     (if node_type_of n \<noteq> ''Hugging Face Download Model'' then None
      else case n_widgets_values n of
             Some (WList ws) \<Rightarrow>
               (if length ws < 3 then None
                else case ws ! 1 of
                       WOther \<Rightarrow> None
                     | WStr u \<Rightarrow>
                         if u \<noteq> [] \<and> CHR ''/'' \<in> set u \<and> url_last_segment u \<noteq> []
                         then Some (make_ref (url_last_segment u) None (Some u) (n_id n)
                                      (Some title)
                                      (case ws ! 2 of
                                         WStr custom_path \<Rightarrow>
                                           if strip custom_path \<noteq> [] then Some (strip custom_path)
                                           else (case ws ! 0 of
                                                   WStr folder \<Rightarrow>
                                                     if folder \<noteq> [] \<and> folder \<noteq> ''custom''
                                                     then Some folder else None
                                                 | WOther \<Rightarrow> None)
                                       | WOther \<Rightarrow>
                                           (case ws ! 0 of
                                              WStr folder \<Rightarrow>
                                                if folder \<noteq> [] \<and> folder \<noteq> ''custom''
                                                then Some folder else None
                                            | WOther \<Rightarrow> None))
                                      None)
                         else None)
           | _ \<Rightarrow> None)"

text \<open>The rows of \<open>properties.models\<close>.\<close>

definition property_row ::
  "node \<Rightarrow> string \<Rightarrow> string list \<Rightarrow> model_ref list \<Rightarrow> model_info \<Rightarrow> model_ref list" where
  "property_row n title keys found_models row =
     (if \<not> truthy (mi_name row) then found_models
      else let fname = fst (split_model_identifier (the (mi_name row)));
               req = snd (split_model_identifier (the (mi_name row)))
           in if fname = [] then found_models
              else if keys \<noteq> [] \<and> normalize_filename_key fname \<notin> set keys then found_models
              else if has_ref found_models fname (n_id n) then found_models
              else found_models
                     @ [make_ref fname req (mi_url row) (n_id n) (Some title)
                          (mi_directory row) None])"

definition property_rows ::
  "node \<Rightarrow> string \<Rightarrow> nat list \<Rightarrow> model_ref list \<Rightarrow> model_ref list" where
  "property_rows n title linked_widget_indices found_models =
     (case n_models n of
        None \<Rightarrow> found_models
      | Some rows \<Rightarrow>
          if linked_widget_indices \<noteq> [] then found_models
          else foldl (property_row n title (widget_model_keys n linked_widget_indices))
                 found_models rows)"

text \<open>The widget values: a URL of a model file (case A), or a filename (case B).\<close>

definition widget_value ::
  "node \<Rightarrow> string \<Rightarrow> nat list \<Rightarrow> model_ref list \<Rightarrow> nat \<times> wvalue \<Rightarrow> model_ref list" where
  "widget_value n title linked_widget_indices found_models slot =
     (case slot of (idx, v) \<Rightarrow>
        if idx \<in> set linked_widget_indices then found_models
        else case v of
               WOther \<Rightarrow> found_models
             | WStr val \<Rightarrow>
                 if is_http val
                    \<and> (has_model_ext val \<or> contains val ''blob'' \<or> contains val ''resolve'')
                    \<and> has_model_ext (url_filename val)
                 then (if has_ref found_models (url_filename val) (n_id n) then found_models
                       else found_models
                              @ [make_ref (url_filename val) None (Some val) (n_id n)
                                   (Some title) (resolve_node_folder n) None])
                 else if looks_like_model_widget_value val (node_type_of n)
                 then (if has_ref found_models (fst (split_model_identifier val)) (n_id n)
                       then found_models
                       else found_models
                              @ [make_ref (fst (split_model_identifier val))
                                   (snd (split_model_identifier val)) None (n_id n)
                                   (Some title) (resolve_node_folder n) None])
                 else found_models)"

definition widget_values ::
  "node \<Rightarrow> string \<Rightarrow> nat list \<Rightarrow> model_ref list \<Rightarrow> model_ref list" where
  "widget_values n title linked_widget_indices found_models =
     foldl (widget_value n title linked_widget_indices) found_models (widget_list n)"

text \<open>Links and the upstream injection of URLs.\<close>

datatype raw_link =
    LinkArray "int option list"
  | LinkObject "int option" "int option"
  | LinkOther

definition build_links_map :: "raw_link list \<Rightarrow> (int option \<times> int option) list" where
  "build_links_map raw_links =
     foldl (\<lambda>links_map link.
              case link of
                LinkArray xs \<Rightarrow>
                  if length xs \<ge> 4 then dict_set links_map (xs ! 0) (xs ! 1) else links_map
              | LinkObject link_id start_node_id \<Rightarrow>
                  if link_id \<noteq> None \<and> start_node_id \<noteq> None
                  then dict_set links_map link_id start_node_id else links_map
              | LinkOther \<Rightarrow> links_map)
           [] raw_links"

definition node_by_id :: "node list \<Rightarrow> int option \<Rightarrow> node option" where
  "node_by_id nodes nid = List.find (\<lambda>n. n_id n = nid) (rev nodes)"

fun show_nat :: "nat \<Rightarrow> string" where
  "show_nat k = (if k < 10 then [''0123456789'' ! k]
                 else show_nat (k div 10) @ [''0123456789'' ! (k mod 10)])"

definition show_int_opt :: "int option \<Rightarrow> string" where
  "show_int_opt v =
     (case v of
        None \<Rightarrow> ''None''
      | Some i \<Rightarrow> if i < 0 then CHR ''-'' # show_nat (nat (- i)) else show_nat (nat i))"

definition node_disabled :: "node \<Rightarrow> bool" where
  "node_disabled n = (n_mode n = Some 2 \<or> n_mode n = Some 4)"

definition inject_url ::
  "int option \<Rightarrow> node \<Rightarrow> int option \<Rightarrow> string \<Rightarrow> model_ref \<Rightarrow> model_ref" where
  "inject_url nid upstream_node upstream_id u_val m =
     (if node_id m = nid \<and> \<not> truthy (url m)
         \<and> (has_model_ext u_val \<or> contains u_val ''blob'' \<or> contains u_val ''resolve'')
         \<and> url_filename u_val \<noteq> []
         \<and> lower (url_filename u_val) = lower (the (filename m))
      then m\<lparr>url := Some u_val,
             note_text := Some (''Resolved from upstream node ''
                                @ (case n_title upstream_node of
                                     Some t \<Rightarrow> t
                                   | None \<Rightarrow> show_int_opt upstream_id))\<rparr>
      else m)"

definition upstream_urls :: "node \<Rightarrow> string list" where
  "upstream_urls upstream_node =
     (if node_disabled upstream_node then []
      else concat (map (\<lambda>(idx, v). case v of WStr s \<Rightarrow> (if is_http s then [s] else [])
                                            | WOther \<Rightarrow> [])
                       (widget_list upstream_node)))"

definition follow_input ::
  "(int option \<times> int option) list \<Rightarrow> node list \<Rightarrow> int option \<Rightarrow> model_ref list \<Rightarrow>
   input_item \<Rightarrow> model_ref list" where
  "follow_input links_map nodes nid found_models item =
     (case in_link item of
        None \<Rightarrow> found_models
      | Some l \<Rightarrow>
          if l = 0 then found_models
          else case dict_get links_map (Some l) of
                 None \<Rightarrow> found_models
               | Some upstream_id \<Rightarrow>
                   (case node_by_id nodes upstream_id of
                      None \<Rightarrow> found_models
                    | Some upstream_node \<Rightarrow>
                        foldl (\<lambda>ms u_val. map (inject_url nid upstream_node upstream_id u_val) ms)
                          found_models (upstream_urls upstream_node)))"

text \<open>
  One iteration of the loop of \<open>_collect_models_from_nodes\<close>, on the references found so
  far and the side index of note links.
\<close>

definition is_note_type :: "string \<Rightarrow> bool" where
  "is_note_type node_type = (contains node_type ''Note'' \<or> contains node_type ''PrimitiveString'')"

definition collect_node ::
  "urlparser \<Rightarrow> (int option \<times> int option) list \<Rightarrow> node list \<Rightarrow> string \<Rightarrow>
   model_ref list \<times> note_index \<Rightarrow> node \<Rightarrow> model_ref list \<times> note_index" where
  "collect_node urlparse links_map nodes node_title_fallback acc n =
     (case acc of (found_models, notes) \<Rightarrow>
        if node_disabled n then (found_models, notes)
        else if or_else (n_cnr_id n) [] = ''comfyui_controlnet_aux'' then (found_models, notes)
        else
          let title = node_title_of n node_title_fallback;
              linked = linked_widgets (inputs_of n) 0
          in if is_subgraph_node (node_type_of n)
             then (found_models
                     @ map (\<lambda>(fname, req, u, folder).
                              make_ref fname req u (n_id n) (Some title) folder
                                (Some ''proxy_widget''))
                           (filter (\<lambda>(fname, req, u, folder). fname \<noteq> [])
                              (collect_proxy_widget_models n (fst linked) (snd linked))),
                   notes)
             else case hf_download_ref n title of
                    Some r \<Rightarrow> (found_models @ [r], notes)
                  | None \<Rightarrow>
                      if is_note_type (node_type_of n)
                      then (found_models, collect_note_links urlparse n notes)
                      else (foldl (follow_input links_map nodes (n_id n))
                              (widget_values n title (fst linked)
                                 (property_rows n title (fst linked) found_models))
                              (inputs_of n),
                            notes))"

definition collect_models_from_nodes ::
  "urlparser \<Rightarrow> node list \<Rightarrow> (int option \<times> int option) list \<Rightarrow> string \<Rightarrow>
   model_ref list \<times> note_index \<Rightarrow> model_ref list \<times> note_index" where
  "collect_models_from_nodes urlparse nodes links_map node_title_fallback acc =
     foldl (collect_node urlparse links_map nodes node_title_fallback) acc nodes"

text \<open>The workflow document and \<open>extract_models_from_workflow\<close>.\<close>

record subgraph =
  sg_name :: "string option"
  sg_nodes :: "node list"
  sg_links :: "raw_link list"

record workflow =
  wf_nodes :: "node list"
  wf_links :: "raw_link list"
  wf_subgraphs :: "subgraph list"
  wf_skip_hf_search :: bool
  wf_skip_filenames :: "string list"

definition apply_note_link :: "urlparser \<Rightarrow> note_index \<Rightarrow> model_ref \<Rightarrow> model_ref" where
  "apply_note_link urlparse notes m =
     (let fname = the (filename m);
          direct = dict_get (fst notes) (normalize_filename_key fname);
          link = (if truthy direct then direct
                  else dict_get (snd notes) (normalize_filename_compact fname))
      in if \<not> truthy link then m
         else if \<not> is_specific_model_file_url urlparse (the link) (Some fname) then m
         else if truthy (url m) \<and> is_specific_model_file_url urlparse (the (url m)) None then m
         else m\<lparr>url := link, source := Some ''note'', note_text := Some ''URL from Note''\<rparr>)"

definition collect_workflow :: "urlparser \<Rightarrow> workflow \<Rightarrow> model_ref list \<times> note_index" where
  "collect_workflow urlparse doc =
     collect_models_from_nodes urlparse (wf_nodes doc) (build_links_map (wf_links doc))
       ''Unknown Node''
       (foldl (\<lambda>acc sg.
                 collect_models_from_nodes urlparse (sg_nodes sg) (build_links_map (sg_links sg))
                   (''Subgraph Node ('' @ (case sg_name sg of None \<Rightarrow> ''Subgraph'' | Some s \<Rightarrow> s)
                    @ '')'')
                   acc)
          ([], ([], [])) (wf_subgraphs doc))"

definition extract_models_from_workflow :: "urlparser \<Rightarrow> workflow \<Rightarrow> model_ref list" where
  "extract_models_from_workflow urlparse doc =
     (case collect_workflow urlparse doc of
        (found_models, notes) \<Rightarrow> map (apply_note_link urlparse notes) found_models)"

text \<open>
  \<open>urlparse\<close> on plain links: the scheme is what precedes \<open>://\<close>, the path starts at the
  first \<open>/\<close> after the host and ends before \<open>?\<close> or \<open>#\<close>.
\<close>

fun split_scheme :: "string \<Rightarrow> string \<Rightarrow> (string \<times> string) option" where
  "split_scheme acc [] = None"
| "split_scheme acc (c # cs) =
     (if startswith (c # cs) ''://'' then Some (rev acc, drop 2 cs)
      else split_scheme (c # acc) cs)"

definition plain_urlparse :: urlparser where
  "plain_urlparse link =
     (case split_scheme [] link of
        Some (scheme, rest) \<Rightarrow>
          Some (scheme,
                takeWhile (\<lambda>c. c \<noteq> CHR ''?'' \<and> c \<noteq> CHR ''#'')
                  (dropWhile (\<lambda>c. c \<noteq> CHR ''/'') rest))
      | None \<Rightarrow> Some ([], takeWhile (\<lambda>c. c \<noteq> CHR ''?'' \<and> c \<noteq> CHR ''#'') link))"

definition empty_node :: node where
  "empty_node =
     \<lparr>n_id = None, n_type = None, n_title = None, n_mode = None, n_cnr_id = None,
      n_models = None, n_proxy_widgets = None, n_widgets_values = None, n_inputs = None\<rparr>"

text \<open>Scenario 2: a note with a markdown link and a loader that names the same file.\<close>

definition scenario2_note :: node where
  "scenario2_note =
     empty_node\<lparr>n_id := Some 1, n_type := Some ''Note'',
                n_widgets_values :=
                  Some (WList [WStr ''see [x](https://host/repo/resolve/main/model.safetensors)''])\<rparr>"

definition scenario2_loader :: node where
  "scenario2_loader =
     empty_node\<lparr>n_id := Some 2, n_type := Some ''CheckpointLoaderSimple'',
                n_widgets_values := Some (WList [WStr ''model.safetensors''])\<rparr>"

definition scenario2_workflow :: workflow where
  "scenario2_workflow =
     \<lparr>wf_nodes = [scenario2_note, scenario2_loader], wf_links = [], wf_subgraphs = [],
      wf_skip_hf_search = False, wf_skip_filenames = []\<rparr>"

text \<open>A preprocessor node of \<open>comfyui_controlnet_aux\<close> with a model file in every place.\<close>

definition aux_node :: node where
  "aux_node =
     empty_node\<lparr>n_id := Some 3, n_type := Some ''DepthAnythingPreprocessor'',
                n_cnr_id := Some ''comfyui_controlnet_aux'',
                n_models := Some [\<lparr>mi_name = Some ''depth.pth'',
                                   mi_url = Some ''https://huggingface.co/a/b/resolve/main/depth.pth'',
                                   mi_directory = Some ''annotators''\<rparr>],
                n_widgets_values :=
                  Some (WList [WStr ''depth_anything_vitl14.pth'',
                               WStr ''https://huggingface.co/a/b/resolve/main/depth.pth''])\<rparr>"

definition scenario2_loader_ref :: model_ref where
  "scenario2_loader_ref =
     make_ref ''model.safetensors'' (Some ''model.safetensors'') None (Some 2)
       (Some ''CheckpointLoaderSimple'') (Some ''checkpoints'') None"

definition scenario2_index :: note_index where
  "scenario2_index =
     ([(''model.safetensors'', ''https://host/repo/resolve/main/model.safetensors'')],
      [(''model.safetensors'', ''https://host/repo/resolve/main/model.safetensors'')])"

section \<open>ReferenceReconciler\<close>

text \<open>
  \<open>canonicalize_model_base\<close>: five \<open>re.sub\<close> calls, each removing one quantization suffix
  at the end of the lowercased stem (\<open>$\<close> also matches before a final newline), together
  with one separator in front of it.
\<close>

definition strip_quant :: "string list \<Rightarrow> string \<Rightarrow> string" where
  "strip_quant bodies s =
     (let tail = (if s \<noteq> [] \<and> last s = newline then [newline] else []);
          core = take (length s - length tail) s
      in case List.find (endswith core) bodies of
           None \<Rightarrow> s
         | Some b \<Rightarrow>
             (let pre = take (length core - length b) core
              in (if pre \<noteq> [] \<and> (last pre = CHR ''-'' \<or> last pre = CHR ''_'')
                  then butlast pre else pre) @ tail))"

definition FP8_E4M3FN :: "string list" where
  "FP8_E4M3FN = [''fp8e4m3fn'', ''fp8-e4m3fn'', ''fp8_e4m3fn'']"

definition FP_BITS :: "string list" where
  "FP_BITS = [''fp16'', ''fp32'', ''fp8'', ''fp4'']"

definition INT_BITS :: "string list" where
  "INT_BITS = [''int8'', ''int4'']"

definition canonicalize_model_base :: "string \<Rightarrow> string" where
  "canonicalize_model_base fname =
     strip_quant INT_BITS
       (strip_quant [''nf4'']
          (strip_quant [''bf16'']
             (strip_quant FP_BITS
                (strip_quant FP8_E4M3FN (fst (splitext (lower fname)))))))"

text \<open>
  \<open>is_quant_variant_filename\<close>: \<open>re.search\<close> for a quantization token that stands between
  separators or the ends of the lowercased stem.
\<close>

definition token_here :: "string list \<Rightarrow> string \<Rightarrow> bool" where
  "token_here bodies s =
     list_ex (\<lambda>b. startswith s b
                  \<and> (drop (length b) s = [] \<or> drop (length b) s = [newline]
                     \<or> hd (drop (length b) s) = CHR ''-'' \<or> hd (drop (length b) s) = CHR ''_''))
             bodies"

fun scan_tokens :: "string list \<Rightarrow> bool \<Rightarrow> string \<Rightarrow> bool" where
  "scan_tokens bodies boundary [] = False"
| "scan_tokens bodies boundary (c # cs) =
     ((boundary \<and> token_here bodies (c # cs))
      \<or> scan_tokens bodies (c = CHR ''-'' \<or> c = CHR ''_'') cs)"

definition is_quant_variant_filename :: "string \<Rightarrow> bool" where
  "is_quant_variant_filename fname =
     scan_tokens (FP8_E4M3FN @ FP_BITS @ [''bf16'', ''nf4''] @ INT_BITS) True
       (fst (splitext (lower fname)))"

text \<open>
  \<open>_swap_nunchaku_precision\<close>: every \<open>int4\<close> (or \<open>fp4\<close>) that no letter or digit touches is
  replaced, case-insensitively.
\<close>

definition is_alnum :: "char \<Rightarrow> bool" where
  "is_alnum c = (lower_char c \<in> set ''abcdefghijklmnopqrstuvwxyz0123456789'')"

fun replace_token :: "string \<Rightarrow> string \<Rightarrow> bool \<Rightarrow> nat \<Rightarrow> string \<Rightarrow> string" where
  "replace_token old new prev_alnum skip [] = []"
| "replace_token old new prev_alnum skip (c # cs) =
     (if skip > 0 then replace_token old new True (skip - 1) cs
      else if \<not> prev_alnum \<and> lower (take (length old) (c # cs)) = old
              \<and> \<not> list_ex is_alnum (take 1 (drop (length old) (c # cs)))
      then new @ replace_token old new True (length old - 1) cs
      else c # replace_token old new (is_alnum c) 0 cs)"

definition swap_nunchaku_precision :: "string \<Rightarrow> string \<Rightarrow> string" where
  "swap_nunchaku_precision v target_precision =
     (if v = [] then v
      else if target_precision = ''fp4'' then replace_token ''int4'' ''fp4'' False 0 v
      else if target_precision = ''int4'' then replace_token ''fp4'' ''int4'' False 0 v
      else v)"

text \<open>\<open>_preferred_nunchaku_precision\<close>, from the cached accelerator capability.\<close>

definition preferred_nunchaku_precision :: "bool \<Rightarrow> string" where
  "preferred_nunchaku_precision is_blackwell = (if is_blackwell then ''fp4'' else ''int4'')"

text \<open>The helpers local to \<open>process_workflow_for_missing_models\<close>.\<close>

definition normalize_dedupe_path :: "string option \<Rightarrow> string" where
  "normalize_dedupe_path v = (if \<not> truthy v then [] else strip_slashes (unbackslash (the v)))"

definition score_entry :: "model_ref \<Rightarrow> int" where
  "score_entry entry =
     (if truthy (url entry) then 10 else 0)
     + (if truthy (node_title entry)
           \<and> contains (lower (the (node_title entry))) ''hugging face download model''
        then 5 else 0)
     + (if CHR ''/'' \<in> set (normalize_dedupe_path (requested_path entry)) then 4 else 0)
     + (if truthy (suggested_folder entry) then 2 else 0)
     + (if origin entry \<noteq> Some ''proxy_widget'' then 1 else 0)"

type_synonym variant_key = "int option \<times> string \<times> string"

definition canonical_variant_name :: "string \<Rightarrow> string" where
  "canonical_variant_name fname =
     (let normalized_name = lower (basename (unbackslash fname));
          stem = fst (splitext normalized_name);
          ext = snd (splitext normalized_name);
          canonical_stem = (if canonicalize_model_base normalized_name \<noteq> []
                            then canonicalize_model_base normalized_name else stem)
      in canonical_stem @ ext)"

definition variant_group_key :: "model_ref \<Rightarrow> variant_key option" where
  "variant_group_key entry =
     (let fname = strip (or_else (filename entry) [])
      in if fname = [] then None
         else Some (node_id entry, normalize_dedupe_path (suggested_folder entry),
                    canonical_variant_name fname))"

definition non_quant_bonus :: "model_ref \<Rightarrow> int" where
  "non_quant_bonus entry =
     (let fname = lower (or_else (filename entry) [])
      in if fname \<noteq> [] \<and> \<not> is_quant_variant_filename fname then 1 else 0)"

definition requested_len :: "model_ref \<Rightarrow> nat" where
  "requested_len entry = length (normalize_dedupe_path (requested_path entry))"

text \<open>
  The order of the tuples \<open>_prefer_entry_for_variant_group\<close> returns, and \<open>max\<close>, which
  keeps the first of several maximal elements.
\<close>

definition variant_better :: "model_ref \<Rightarrow> model_ref \<Rightarrow> bool" where
  "variant_better a b =
     (score_entry a > score_entry b
      \<or> (score_entry a = score_entry b
          \<and> (non_quant_bonus a > non_quant_bonus b
             \<or> (non_quant_bonus a = non_quant_bonus b \<and> requested_len a > requested_len b))))"

fun max_by :: "('a \<Rightarrow> 'a \<Rightarrow> bool) \<Rightarrow> 'a \<Rightarrow> 'a list \<Rightarrow> 'a" where
  "max_by better best [] = best"
| "max_by better best (x # xs) = max_by better (if better x best then x else best) xs"

text \<open>A dict of lists filled by \<open>setdefault(key, []).append(x)\<close>.\<close>

fun group_insert :: "'k \<Rightarrow> 'v \<Rightarrow> ('k \<times> 'v list) list \<Rightarrow> ('k \<times> 'v list) list" where
  "group_insert k v [] = [(k, [v])]"
| "group_insert k v ((k', vs) # rest) =
     (if k' = k then (k', vs @ [v]) # rest else (k', vs) # group_insert k v rest)"

definition group_by :: "('v \<Rightarrow> 'k) \<Rightarrow> 'v list \<Rightarrow> ('k \<times> 'v list) list" where
  "group_by key xs = foldl (\<lambda>groups x. group_insert (key x) x groups) [] xs"

text \<open>Step 1: one representative for the variants of a name on a node.\<close>

definition first_with :: "('a \<Rightarrow> bool) \<Rightarrow> 'a list \<Rightarrow> 'a option" where
  "first_with p xs = List.find p xs"

definition merge_url :: "model_ref list \<Rightarrow> model_ref \<Rightarrow> model_ref" where
  "merge_url grp merged =
     (if truthy (url merged) then merged
      else case first_with (\<lambda>c. truthy (url c)) grp of
             None \<Rightarrow> merged
           | Some c \<Rightarrow>
               (if truthy (source c) then merged\<lparr>url := url c, source := source c\<rparr>
                else merged\<lparr>url := url c\<rparr>))"

definition merge_folder :: "model_ref list \<Rightarrow> model_ref \<Rightarrow> model_ref" where
  "merge_folder grp merged =
     (if truthy (suggested_folder merged) then merged
      else case first_with (\<lambda>c. truthy (suggested_folder c)) grp of
             None \<Rightarrow> merged
           | Some c \<Rightarrow> merged\<lparr>suggested_folder := suggested_folder c\<rparr>)"

definition merge_requested :: "model_ref list \<Rightarrow> model_ref \<Rightarrow> model_ref" where
  "merge_requested grp merged =
     (let requested_candidates =
            sorted_by (\<lambda>a b. requested_len a > requested_len b)
              (filter (\<lambda>c. normalize_dedupe_path (requested_path c) \<noteq> []) grp);
          target_name = lower (or_else (filename merged) [])
      in if requested_candidates = [] then merged
         else case first_with
                     (\<lambda>c. lower (basename (normalize_dedupe_path (requested_path c))) \<noteq> []
                          \<and> lower (basename (normalize_dedupe_path (requested_path c)))
                              \<noteq> target_name)
                     requested_candidates of
                Some c \<Rightarrow> merged\<lparr>requested_path := requested_path c\<rparr>
              | None \<Rightarrow> merged\<lparr>requested_path := requested_path (hd requested_candidates)\<rparr>)"

definition merge_group :: "model_ref list \<Rightarrow> model_ref" where
  "merge_group grp =
     (if length grp = 1 then hd grp
      else merge_requested grp
             (merge_folder grp (merge_url grp (max_by variant_better (hd grp) (tl grp)))))"

definition coalesce_step ::
  "(variant_key \<times> model_ref list) list \<times> model_ref list \<Rightarrow> model_ref \<Rightarrow>
   (variant_key \<times> model_ref list) list \<times> model_ref list" where
  "coalesce_step acc model =
     (case acc of (variant_groups, passthrough_models) \<Rightarrow>
        case variant_group_key model of
          None \<Rightarrow> (variant_groups, passthrough_models @ [model])
        | Some k \<Rightarrow> (group_insert k model variant_groups, passthrough_models))"

definition coalesce_variants :: "model_ref list \<Rightarrow> model_ref list" where
  "coalesce_variants required_models =
     (case foldl coalesce_step ([], []) required_models of
        (variant_groups, passthrough_models) \<Rightarrow>
          passthrough_models @ map (\<lambda>(k, grp). merge_group grp) variant_groups)"

text \<open>Step 2: one entry per node, filename and folder.\<close>

definition name_key :: "model_ref \<Rightarrow> int option \<times> string" where
  "name_key model = (node_id model, lower (or_else (filename model) []))"

definition folder_key :: "model_ref \<Rightarrow> string" where
  "folder_key model = normalize_dedupe_path (suggested_folder model)"

definition dedupe_better :: "model_ref \<Rightarrow> model_ref \<Rightarrow> bool" where
  "dedupe_better candidate best =
     (score_entry candidate > score_entry best
      \<or> (score_entry candidate = score_entry best
          \<and> requested_len candidate > requested_len best))"

definition drop_unscoped :: "(string \<times> model_ref list) list \<Rightarrow> (string \<times> model_ref list) list" where
  "drop_unscoped folder_groups =
     (if length folder_groups > 1 \<and> [] \<in> fst ` set folder_groups
      then filter (\<lambda>(k, grp). k \<noteq> []) folder_groups
      else folder_groups)"

definition dedupe_group :: "model_ref list \<Rightarrow> model_ref list" where
  "dedupe_group models =
     map (\<lambda>(k, grp). max_by dedupe_better (hd grp) (tl grp))
         (drop_unscoped (group_by folder_key models))"

definition dedupe_by_name :: "model_ref list \<Rightarrow> model_ref list" where
  "dedupe_by_name required_models =
     concat (map (\<lambda>(k, models). dedupe_group models)
                 (group_by name_key
                    (filter (\<lambda>m. lower (or_else (filename m) []) \<noteq> []) required_models)))"

text \<open>Step 3: the precision of SVDQ names follows the accelerator.\<close>

definition normalize_precision :: "string \<Rightarrow> model_ref \<Rightarrow> model_ref" where
  "normalize_precision preferred model =
     (if \<not> is_nunchaku_svdq_name (filename model) then model
      else let current_name = the (filename model);
               target_name = swap_nunchaku_precision current_name preferred
           in if target_name = [] \<or> target_name = current_name then model
              else model\<lparr>requested_path := (if truthy (requested_path model)
                                             then requested_path model else Some current_name),
                         filename := Some target_name,
                         nunchaku_precision := Some preferred,
                         source := Some ''nunchaku_precision_adjusted'',
                         url := None, hf_repo := None, hf_path := None\<rparr>)"

text \<open>Step 4: exact duplicates of a filename on a node.\<close>

fun unique_by :: "('a \<Rightarrow> 'k) \<Rightarrow> 'k list \<Rightarrow> 'a list \<Rightarrow> 'a list" where
  "unique_by key seen [] = []"
| "unique_by key seen (x # xs) =
     (if key x \<in> set seen then unique_by key seen xs
      else x # unique_by key (key x # seen) xs)"

definition pair_key :: "model_ref \<Rightarrow> string option \<times> int option" where
  "pair_key model = (filename model, node_id model)"

text \<open>
  The reconciliation as the code runs it: coalescing, the dedup per node and filename,
  the precision normalization, and the removal of exact duplicates.
\<close>

definition required_after_precision :: "bool \<Rightarrow> model_ref list \<Rightarrow> model_ref list" where
  "required_after_precision is_blackwell required_models =
     map (normalize_precision (preferred_nunchaku_precision is_blackwell))
         (dedupe_by_name (coalesce_variants required_models))"

definition reconcile :: "bool \<Rightarrow> model_ref list \<Rightarrow> model_ref list" where
  "reconcile is_blackwell required_models =
     unique_by pair_key [] (required_after_precision is_blackwell required_models)"


text \<open>Scenario 1, and a pair of names whose longer one carries two suffixes.\<close>

definition widget_ref :: "string \<Rightarrow> int \<Rightarrow> string \<Rightarrow> model_ref" where
  "widget_ref fname nid folder =
     make_ref fname (Some fname) None (Some nid) (Some ''Loader'') (Some folder) None"

definition keyed :: "model_ref \<Rightarrow> bool" where
  "keyed m = (variant_group_key m \<noteq> None)"

text \<open>
  The vocabulary of scenario 1. \<open>QUANT_SUFFIXES\<close> lists the bodies that the five
  substitutions of \<open>canonicalize_model_base\<close> remove, \<open>strip_quant_passes\<close> is their
  sequence, and \<open>normalized_name\<close> is the local \<open>normalized_name\<close> of \<open>_variant_group_key\<close>:
  the lowercased base name of the stripped filename. A stem ends in a quantization suffix
  when one of the bodies stands at its end, a final newline aside (\<open>$\<close> matches before it).
\<close>

definition QUANT_SUFFIXES :: "string list" where
  "QUANT_SUFFIXES = FP8_E4M3FN @ FP_BITS @ [''bf16''] @ [''nf4''] @ INT_BITS"

definition normalized_name :: "model_ref \<Rightarrow> string" where
  "normalized_name entry =
     lower (basename (unbackslash (strip (or_else (filename entry) []))))"

definition ends_in_quant_suffix :: "string \<Rightarrow> bool" where
  "ends_in_quant_suffix s =
     list_ex (\<lambda>b. endswith s b \<or> endswith s (b @ [newline])) QUANT_SUFFIXES"

definition ends_in_separator :: "string \<Rightarrow> bool" where
  "ends_in_separator s = (s \<noteq> [] \<and> (last s = CHR ''-'' \<or> last s = CHR ''_''))"

definition strip_quant_passes :: "string \<Rightarrow> string" where
  "strip_quant_passes s =
     strip_quant INT_BITS
       (strip_quant [''nf4'']
          (strip_quant [''bf16''] (strip_quant FP_BITS (strip_quant FP8_E4M3FN s))))"

section \<open>The top-level run: \<open>process_workflow_for_missing_models\<close>\<close>

text \<open>
  What the run takes from outside the module: the knobs, the remote API, the storage,
  \<open>urlparse\<close>, the accelerator capability, the two loaded lookup tables (keyed by
  lowercased filename, in file order), the liveness probe of a curated URL, and whether
  \<open>get_token\<close> raises.
\<close>

record registry_entry =
  re_filename :: string
  re_url :: "string option"
  re_more_urls :: "string list"
  re_source :: "string option"
  re_directory :: "string option"

record host =
  h_config :: config
  h_env :: hf_env
  h_storage :: storage
  h_urlparse :: urlparser
  h_is_blackwell :: bool
  h_popular_models :: "(string \<times> registry_entry) list"
  h_manager_models :: "(string \<times> registry_entry) list"
  h_url_exists :: "string \<Rightarrow> bool"
  h_get_token :: "exn option"




















































text \<open>
  An API whose first answer is a rate-limit error, that lists one repository for the
  author \<open>city96\<close>, and that finds nothing else.
\<close>

definition throttling_env :: hf_env where
  "throttling_env =
     \<lparr>respond = (\<lambda>k c. if k = 0 then Throws (Raised ''429 Too Many Requests'')
                        else if c = ListModelsAuthor ''city96'' then Returned [''city96/flux-gguf'']
                        else if c = ListRepoFiles ''city96/flux-gguf'' then Returned [''other.bin'']
                        else Returned []),
      elapse = (\<lambda>k c. 1), api_init = (\<lambda>k. None)\<rparr>"









section \<open>Verification: local-existence check\<close>

lemma check_step_eq:
  "check_step st (a, b, c) m =
     (a @ (if unlocated st m then [m] else []),
      b @ (if located st m then [entry_of st m] else []),
      c @ (if mismatched st m then [entry_of st m] else []))"
  by (cases "locate st m")
     (simp_all add: check_step_def located_def unlocated_def mismatched_def entry_of_def)

lemma check_fold:
  "foldl (check_step st) (a, b, c) ms =
     (a @ filter (unlocated st) ms,
      b @ map (entry_of st) (filter (located st) ms),
      c @ map (entry_of st) (filter (mismatched st) ms))"
proof (induction ms arbitrary: a b c)
  case Nil
  show ?case by simp
next
  case (Cons m ms)
  show ?case
    by (simp add: check_step_eq Cons.IH)
qed

lemma checkable_split:
  "length (filter (unlocated st) ms) + length (filter (located st) ms)
     = length (filter checkable ms)"
  by (induction ms) (auto simp: located_def unlocated_def)

text \<open>
  C1 (as amended). Every reference whose filename is neither empty nor \<open>"null"\<close> yields
  exactly one result: it is appended to \<open>missing\<close> when no root holds it and to \<open>existing\<close>
  otherwise. A found reference whose relative path differs from the requested one is
  appended to \<open>path_mismatches\<close> in addition to \<open>existing\<close>, so the mismatches are a sub-list
  of the found entries. References with an empty or \<open>"null"\<close> filename are in no list.
\<close>

theorem check_model_files_classifies:
  "check_model_files st ms =
     (filter (unlocated st) ms,
      map (entry_of st) (filter (located st) ms),
      map (entry_of st) (filter (mismatched st) ms))
   \<and> length (filter (unlocated st) ms) + length (filter (located st) ms)
       = length (filter checkable ms)
   \<and> set (filter (mismatched st) ms) \<subseteq> set (filter (located st) ms)
   \<and> set (filter (unlocated st) ms) \<inter> set (filter (located st) ms) = {}"
proof -
  have "check_model_files st ms =
     (filter (unlocated st) ms,
      map (entry_of st) (filter (located st) ms),
      map (entry_of st) (filter (mismatched st) ms))"
    using check_fold [of st "[]" "[]" "[]" ms] by (simp add: check_model_files_def)
  moreover have "set (filter (mismatched st) ms) \<subseteq> set (filter (located st) ms)"
    by (auto simp: mismatched_def)
  moreover have "set (filter (unlocated st) ms) \<inter> set (filter (located st) ms) = {}"
    by (auto simp: located_def unlocated_def)
  ultimately show ?thesis
    using checkable_split [of st ms] by simp
qed

theorem check_model_files_classifies_witness:
  "check_model_files scenario3_storage
       [scenario3_ref, scenario3_ref\<lparr>filename := Some ''y.safetensors''\<rparr>,
        scenario3_ref\<lparr>filename := Some ''null''\<rparr>]
     = ([scenario3_ref\<lparr>filename := Some ''y.safetensors''\<rparr>],
        [scenario3_entry], [scenario3_entry])"
proof -
  have "filter (unlocated scenario3_storage)
          [scenario3_ref, scenario3_ref\<lparr>filename := Some ''y.safetensors''\<rparr>,
           scenario3_ref\<lparr>filename := Some ''null''\<rparr>]
        = [scenario3_ref\<lparr>filename := Some ''y.safetensors''\<rparr>]"
    by code_simp
  moreover have "map (entry_of scenario3_storage) (filter (located scenario3_storage)
          [scenario3_ref, scenario3_ref\<lparr>filename := Some ''y.safetensors''\<rparr>,
           scenario3_ref\<lparr>filename := Some ''null''\<rparr>])
        = [scenario3_entry]"
    by code_simp
  moreover have "map (entry_of scenario3_storage) (filter (mismatched scenario3_storage)
          [scenario3_ref, scenario3_ref\<lparr>filename := Some ''y.safetensors''\<rparr>,
           scenario3_ref\<lparr>filename := Some ''null''\<rparr>])
        = [scenario3_entry]"
    by code_simp
  ultimately show ?thesis
    using check_model_files_classifies [of scenario3_storage
        "[scenario3_ref, scenario3_ref\<lparr>filename := Some ''y.safetensors''\<rparr>,
          scenario3_ref\<lparr>filename := Some ''null''\<rparr>]"]
    by simp
qed

text \<open>
  C1 as stated fails: the reference of scenario 3 is found with a path mismatch and is
  listed both in \<open>existing\<close> and in \<open>path_mismatches\<close>; a reference whose filename is the
  non-empty string \<open>"null"\<close> is in none of the three lists.
\<close>

theorem check_model_files_exactly_one_counterexample:
  "check_model_files scenario3_storage [scenario3_ref]
     = ([], [scenario3_entry], [scenario3_entry])
   \<and> check_model_files scenario3_storage [scenario3_ref\<lparr>filename := Some ''null''\<rparr>]
     = ([], [], [])"
  by code_simp

section \<open>Verification: budget state and search cache\<close>

lemma dict_get_set_same: "dict_get (dict_set d k v) k = Some v"
  by (induction d) (auto simp: dict_get_def)

lemma dict_get_set_other: "k' \<noteq> k \<Longrightarrow> dict_get (dict_set d k v) k' = dict_get d k'"
  by (induction d) (auto simp: dict_get_def)

text \<open>
  C8 (as amended). At the start of a run the call counter, the deadline, the
  time-exhausted flag, the rate-limited-until timestamp and the per-repository
  file-listing memoization are all reset; of the process-wide search state only the
  normalized-filename resolution cache keeps its value from earlier runs.
\<close>

theorem begin_run_resets:
  "hf_api_calls (begin_run w) = 0
   \<and> hf_search_deadline (begin_run w) = 0
   \<and> hf_search_time_exhausted (begin_run w) = False
   \<and> hf_rate_limited_until (begin_run w) = None
   \<and> hf_repo_files_cache (begin_run w) = []
   \<and> hf_search_cache (begin_run w) = hf_search_cache w"
  by (simp add: begin_run_def)

text \<open>
  C8 as stated fails: a cooldown that an earlier run has set and a file listing that it
  has memoized are both gone after the first statements of the next run.
\<close>

theorem begin_run_persistence_counterexample:
  "hf_rate_limited_until
     (begin_run (fresh_world\<lparr>hf_rate_limited_until := Some 1300,
                            hf_repo_files_cache := [(''Kijai/some-repo'', [''a.safetensors''])]\<rparr>))
     \<noteq> Some 1300
   \<and> hf_repo_files_cache
       (begin_run (fresh_world\<lparr>hf_rate_limited_until := Some 1300,
                              hf_repo_files_cache := [(''Kijai/some-repo'', [''a.safetensors''])]\<rparr>))
     \<noteq> [(''Kijai/some-repo'', [''a.safetensors''])]"
  by (simp add: begin_run_def fresh_world_def)

text \<open>
  C9 (as amended). For a filename whose lowercased basename is in the skip list the
  search issues no remote call. If the process-wide cache already holds a positive entry
  for that name, this entry is the result and the cache is unchanged; otherwise the
  search returns no result and the cache holds the not-found sentinel for that name
  afterwards.
\<close>

theorem search_skip_filenames:
  assumes "normalize_hf_search_key fname \<in> set HF_SEARCH_SKIP_FILENAMES"
    and "api_init env (api_inits w) = None"
    and "search_huggingface_model cfg env status_cb fname mode kws repos skip w = (r, w')"
  shows "remote_log w' = remote_log w
     \<and> (case dict_get (hf_search_cache w) (normalize_hf_search_key fname) of
          Some (Some cached) \<Rightarrow> r = Inr (Some cached) \<and> hf_search_cache w' = hf_search_cache w
        | _ \<Rightarrow> r = Inr None
               \<and> dict_get (hf_search_cache w') (normalize_hf_search_key fname) = Some None)"
  using assms
  by (auto simp: search_huggingface_model_def search_uncached_def new_api_def dict_get_set_same
           split: option.splits if_splits)

theorem search_skip_filenames_witness:
  "normalize_hf_search_key ''sub/Model.safetensors'' \<in> set HF_SEARCH_SKIP_FILENAMES
   \<and> search_huggingface_model default_config silent_env None ''sub/Model.safetensors''
         ''full'' [] None False fresh_world
       = (Inr None,
          fresh_world\<lparr>hf_search_cache := [(''model.safetensors'', None)], api_inits := 1\<rparr>)
   \<and> remote_log (fresh_world\<lparr>hf_search_cache := [(''model.safetensors'', None)],
                               api_inits := 1\<rparr>) = remote_log fresh_world"
proof -
  have h1: "normalize_hf_search_key ''sub/Model.safetensors'' \<in> set HF_SEARCH_SKIP_FILENAMES"
    by code_simp
  have h2: "api_init silent_env (api_inits fresh_world) = None"
    by (simp add: silent_env_def)
  have h3: "search_huggingface_model default_config silent_env None ''sub/Model.safetensors''
              ''full'' [] None False fresh_world
            = (Inr None,
               fresh_world\<lparr>hf_search_cache := [(''model.safetensors'', None)], api_inits := 1\<rparr>)"
    by code_simp
  from search_skip_filenames [OF h1 h2 h3] h1 h3 show ?thesis
    by simp
qed

text \<open>
  C9 as stated fails: with a positive cache entry for \<open>model.safetensors\<close> (the
  priority-repository scan stores one for any filename it finds) the search returns that
  entry, and no not-found sentinel is recorded.
\<close>

theorem search_skip_filenames_counterexample:
  "search_huggingface_model default_config silent_env None ''model.safetensors''
       ''full'' [] None False
       (fresh_world\<lparr>hf_search_cache := [(''model.safetensors'', Some generic_hit)]\<rparr>)
     = (Inr (Some generic_hit),
        fresh_world\<lparr>hf_search_cache := [(''model.safetensors'', Some generic_hit)],
                    api_inits := 1\<rparr>)"
  by code_simp

section \<open>Verification: extraction\<close>

lemma collect_node_aux:
  "n_cnr_id n = Some ''comfyui_controlnet_aux'' \<Longrightarrow>
   collect_node urlparse links_map nodes fb acc n = acc"
  by (cases acc) (simp add: collect_node_def or_else_def truthy_def)

lemma contains_head: "contains s (c # p) \<Longrightarrow> c \<in> set s"
  by (induction s) auto

lemma uuid_shape_chars:
  assumes "uuid_shape s" and "c \<in> set s"
  shows "is_hex c \<or> c = CHR ''-''"
proof -
  from assms(2) obtain i where i: "i < length s" "s ! i = c"
    by (auto simp: in_set_conv_nth)
  from assms(1) have len: "length s = 36"
    and all: "list_all (\<lambda>(i, c). if i \<in> set [8, 13, 18, 23] then c = CHR ''-'' else is_hex c)
                (zip [0..<36] s)"
    by (simp_all add: uuid_shape_def)
  from i len have "(i, c) \<in> set (zip [0..<36] s)"
    by (auto simp: in_set_zip intro!: exI [of _ i])
  with all show ?thesis
    by (auto simp: list_all_iff split: if_splits)
qed

lemma note_not_subgraph:
  assumes "is_note_type t"
  shows "\<not> is_subgraph_node t"
proof
  assume sub: "is_subgraph_node t"
  from assms have "CHR ''N'' \<in> set t \<or> CHR ''P'' \<in> set t"
    by (auto simp: is_note_type_def dest: contains_head)
  then obtain c where c: "c \<in> set t" "c = CHR ''N'' \<or> c = CHR ''P''"
    by auto
  have nothex: "\<not> (is_hex c \<or> c = CHR ''-'')" "c \<noteq> newline"
    using c(2) by (auto simp: is_hex_def newline_def)
  from sub show False
  proof (unfold is_subgraph_node_def, elim disjE conjE)
    assume "uuid_shape t"
    with c(1) nothex show False by (auto dest: uuid_shape_chars)
  next
    assume t: "t \<noteq> []" "last t = newline" "uuid_shape (butlast t)"
    from t(1) have "t = butlast t @ [last t]" by simp
    with c(1) have "c \<in> set (butlast t) \<or> c = last t"
      by (metis Un_iff empty_iff insert_iff list.set(1) list.set(2) set_append)
    with t nothex show False by (auto dest: uuid_shape_chars)
  qed
qed

lemma note_not_download: "is_note_type t \<Longrightarrow> t \<noteq> ''Hugging Face Download Model''"
proof
  assume "is_note_type t" "t = ''Hugging Face Download Model''"
  then have "is_note_type ''Hugging Face Download Model''" by simp
  then show False by code_simp
qed

lemma collect_node_note:
  assumes "is_note_type (node_type_of n)"
  shows "fst (collect_node urlparse links_map nodes fb (found_models, notes) n) = found_models"
  using note_not_subgraph [OF assms] note_not_download [OF assms] assms
  by (simp add: collect_node_def Let_def hf_download_ref_def)

lemma apply_note_link_cases:
  assumes "apply_note_link urlparse idx m \<noteq> m"
  shows "\<exists>u. (dict_get (fst idx) (normalize_filename_key (the (filename m))) = Some u
              \<or> dict_get (snd idx) (normalize_filename_compact (the (filename m))) = Some u)
           \<and> is_specific_model_file_url urlparse u (Some (the (filename m)))
           \<and> \<not> (truthy (url m) \<and> is_specific_model_file_url urlparse (the (url m)) None)
           \<and> apply_note_link urlparse idx m
               = m\<lparr>url := Some u, source := Some ''note'', note_text := Some ''URL from Note''\<rparr>"
  using assms
  by (auto simp: apply_note_link_def Let_def truthy_def split: if_splits option.splits)

text \<open>
  C7. A markdown link of a note never becomes a reference of its own: processing a node
  whose type contains \<open>Note\<close> (or \<open>PrimitiveString\<close>) leaves the list of references as it
  was, whatever the node holds. The links only reach the side index, and the final pass
  over the references uses the index for nothing but a backfill: whenever it changes a
  reference, the index holds a link under the reference's normalized (or compact)
  filename, the link is a specific-file URL for that very filename, the reference did not
  already carry a valid specific-file URL, and the change is the link stored as \<open>url\<close>
  (with source \<open>note\<close>).
\<close>

theorem note_links_only_backfill:
  "(is_note_type (node_type_of n) \<longrightarrow>
      fst (collect_node urlparse links_map nodes fb (found_models, notes) n) = found_models)
   \<and> (apply_note_link urlparse idx m \<noteq> m \<longrightarrow>
        (\<exists>u. (dict_get (fst idx) (normalize_filename_key (the (filename m))) = Some u
               \<or> dict_get (snd idx) (normalize_filename_compact (the (filename m))) = Some u)
            \<and> is_specific_model_file_url urlparse u (Some (the (filename m)))
            \<and> \<not> (truthy (url m) \<and> is_specific_model_file_url urlparse (the (url m)) None)
            \<and> apply_note_link urlparse idx m
                = m\<lparr>url := Some u, source := Some ''note'',
                      note_text := Some ''URL from Note''\<rparr>))
   \<and> extract_models_from_workflow urlparse doc
       = map (apply_note_link urlparse (snd (collect_workflow urlparse doc)))
           (fst (collect_workflow urlparse doc))"
proof (intro conjI impI)
  assume "is_note_type (node_type_of n)"
  then show "fst (collect_node urlparse links_map nodes fb (found_models, notes) n) = found_models"
    by (rule collect_node_note)
next
  assume "apply_note_link urlparse idx m \<noteq> m"
  then show "\<exists>u. (dict_get (fst idx) (normalize_filename_key (the (filename m))) = Some u
               \<or> dict_get (snd idx) (normalize_filename_compact (the (filename m))) = Some u)
            \<and> is_specific_model_file_url urlparse u (Some (the (filename m)))
            \<and> \<not> (truthy (url m) \<and> is_specific_model_file_url urlparse (the (url m)) None)
            \<and> apply_note_link urlparse idx m
                = m\<lparr>url := Some u, source := Some ''note'',
                      note_text := Some ''URL from Note''\<rparr>"
    by (rule apply_note_link_cases)
next
  show "extract_models_from_workflow urlparse doc
       = map (apply_note_link urlparse (snd (collect_workflow urlparse doc)))
           (fst (collect_workflow urlparse doc))"
    by (simp add: extract_models_from_workflow_def split: prod.splits)
qed

theorem note_links_only_backfill_witness:
  "is_note_type (node_type_of scenario2_note)
   \<and> fst (collect_node plain_urlparse [] [scenario2_note, scenario2_loader] ''Unknown Node''
             ([scenario2_loader_ref], ([], [])) scenario2_note) = [scenario2_loader_ref]
   \<and> apply_note_link plain_urlparse scenario2_index scenario2_loader_ref \<noteq> scenario2_loader_ref
   \<and> apply_note_link plain_urlparse scenario2_index scenario2_loader_ref
       = scenario2_loader_ref\<lparr>url := Some ''https://host/repo/resolve/main/model.safetensors'',
                               source := Some ''note'', note_text := Some ''URL from Note''\<rparr>
   \<and> extract_models_from_workflow plain_urlparse scenario2_workflow
       = [scenario2_loader_ref\<lparr>url := Some ''https://host/repo/resolve/main/model.safetensors'',
                                source := Some ''note'', note_text := Some ''URL from Note''\<rparr>]"
proof -
  have h1: "is_note_type (node_type_of scenario2_note)"
    by code_simp
  have h2: "apply_note_link plain_urlparse scenario2_index scenario2_loader_ref
              = scenario2_loader_ref\<lparr>url := Some ''https://host/repo/resolve/main/model.safetensors'',
                                      source := Some ''note'', note_text := Some ''URL from Note''\<rparr>"
    by code_simp
  have h3: "scenario2_loader_ref\<lparr>url := Some ''https://host/repo/resolve/main/model.safetensors'',
                                 source := Some ''note'', note_text := Some ''URL from Note''\<rparr>
              \<noteq> scenario2_loader_ref"
    by code_simp
  have h4: "collect_workflow plain_urlparse scenario2_workflow
              = ([scenario2_loader_ref], scenario2_index)"
    by code_simp
  from note_links_only_backfill [of scenario2_note plain_urlparse "[]"
         "[scenario2_note, scenario2_loader]" "''Unknown Node''" "[scenario2_loader_ref]"
         "([], [])" scenario2_index scenario2_loader_ref scenario2_workflow]
       h1 h2 h3 h4
  show ?thesis by simp
qed

text \<open>
  C10. A node whose \<open>properties.cnr_id\<close> is \<open>comfyui_controlnet_aux\<close> contributes nothing:
  the loop over the nodes gives the same references and the same note index when these
  nodes are left out of it, whatever their widget values, property rows and URLs.
\<close>

theorem aux_nodes_emit_nothing:
  "foldl (collect_node urlparse links_map nodes fb) acc ns
   = foldl (collect_node urlparse links_map nodes fb) acc
       (filter (\<lambda>n. n_cnr_id n \<noteq> Some ''comfyui_controlnet_aux'') ns)"
  by (induction ns arbitrary: acc) (simp_all add: collect_node_aux)

theorem aux_nodes_emit_nothing_witness:
  "foldl (collect_node plain_urlparse [] [aux_node, scenario2_loader] ''Unknown Node'')
     ([], ([], [])) [aux_node, scenario2_loader]
   = ([scenario2_loader_ref], ([], []))"
proof -
  have h1: "filter (\<lambda>n. n_cnr_id n \<noteq> Some ''comfyui_controlnet_aux'') [aux_node, scenario2_loader]
              = [scenario2_loader]"
    by code_simp
  have h2: "foldl (collect_node plain_urlparse [] [aux_node, scenario2_loader] ''Unknown Node'')
              ([], ([], [])) [scenario2_loader]
            = ([scenario2_loader_ref], ([], []))"
    by code_simp
  show ?thesis
    by (simp only: aux_nodes_emit_nothing [of plain_urlparse "[]" "[aux_node, scenario2_loader]"
          "''Unknown Node''" "([], ([], []))" "[aux_node, scenario2_loader]"] h1 h2)
qed

section \<open>Verification: reconciliation\<close>

lemma group_insert_keys:
  "map fst (group_insert k v g) = (if k \<in> fst ` set g then map fst g else map fst g @ [k])"
  by (induction g) (fastforce simp: image_iff)+

lemma group_by_snoc: "group_by key (xs @ [x]) = group_insert (key x) x (group_by key xs)"
  by (simp add: group_by_def)

lemma group_by_keys_set: "fst ` set (group_by key xs) = key ` set xs"
proof (induction xs rule: rev_induct)
  case Nil
  show ?case by (simp add: group_by_def)
next
  case (snoc x xs)
  have "set (map fst (group_insert (key x) x (group_by key xs)))
          = insert (key x) (fst ` set (group_by key xs))"
    by (auto simp: group_insert_keys)
  with snoc show ?case by (simp add: group_by_snoc)
qed

lemma group_by_keys_distinct: "distinct (map fst (group_by key xs))"
proof (induction xs rule: rev_induct)
  case Nil
  show ?case by (simp add: group_by_def)
next
  case (snoc x xs)
  then show ?case by (simp add: group_by_snoc group_insert_keys)
qed

lemma group_insert_members:
  "(k', g') \<in> set (group_insert k v g) \<Longrightarrow>
     (k', g') \<in> set g \<or> (k' = k \<and> (g' = [v] \<or> (\<exists>g0. (k, g0) \<in> set g \<and> g' = g0 @ [v])))"
  by (induction g) (auto split: if_splits)

lemma group_by_members:
  "(k, g) \<in> set (group_by key xs) \<Longrightarrow> g \<noteq> [] \<and> set g \<subseteq> set xs \<and> (\<forall>x \<in> set g. key x = k)"
proof (induction xs arbitrary: k g rule: rev_induct)
  case Nil
  then show ?case by (simp add: group_by_def)
next
  case (snoc x xs)
  from snoc.prems have "(k, g) \<in> set (group_insert (key x) x (group_by key xs))"
    by (simp add: group_by_snoc)
  then consider "(k, g) \<in> set (group_by key xs)"
    | "k = key x" "g = [x]"
    | g0 where "k = key x" "(key x, g0) \<in> set (group_by key xs)" "g = g0 @ [x]"
    by (auto dest: group_insert_members)
  then show ?case
  proof cases
    case 1
    with snoc.IH [of k g] show ?thesis by auto
  next
    case 2
    then show ?thesis by simp
  next
    case 3
    with snoc.IH [of "key x" g0] show ?thesis by auto
  qed
qed

lemma coalesce_step_eq:
  "coalesce_step (groups, pass) x
     = (if keyed x then (group_insert (the (variant_group_key x)) x groups, pass)
        else (groups, pass @ [x]))"
  by (cases "variant_group_key x") (simp_all add: coalesce_step_def keyed_def)

lemma coalesce_fold:
  "foldl coalesce_step ([], []) xs
     = (group_by (\<lambda>m. the (variant_group_key m)) (filter keyed xs),
        filter (\<lambda>m. \<not> keyed m) xs)"
proof (induction xs rule: rev_induct)
  case Nil
  show ?case by (simp add: group_by_def)
next
  case (snoc x xs)
  then show ?case
    by (simp add: coalesce_step_eq group_by_snoc)
qed

lemma max_by_member: "max_by better b xs \<in> insert b (set xs)"
  by (induction xs arbitrary: b) (auto split: if_splits)

lemma variant_key_cong:
  "filename a = filename b \<Longrightarrow> node_id a = node_id b \<Longrightarrow>
   normalize_dedupe_path (suggested_folder a) = normalize_dedupe_path (suggested_folder b) \<Longrightarrow>
   variant_group_key a = variant_group_key b"
  by (simp add: variant_group_key_def Let_def)

lemma variant_key_folder:
  "variant_group_key m = Some (n, f, c) \<Longrightarrow> normalize_dedupe_path (suggested_folder m) = f \<and> node_id m = n"
  by (auto simp: variant_group_key_def Let_def split: if_splits)

lemma first_with_member: "first_with p xs = Some c \<Longrightarrow> c \<in> set xs \<and> p c"
  by (auto simp: first_with_def find_Some_iff)

lemma merge_url_fields:
  "filename (merge_url grp m) = filename m \<and> node_id (merge_url grp m) = node_id m
   \<and> suggested_folder (merge_url grp m) = suggested_folder m"
  by (simp add: merge_url_def split: option.splits)

lemma merge_requested_fields:
  "filename (merge_requested grp m) = filename m \<and> node_id (merge_requested grp m) = node_id m
   \<and> suggested_folder (merge_requested grp m) = suggested_folder m"
  by (simp add: merge_requested_def Let_def split: option.splits)

lemma merge_folder_fields:
  "filename (merge_folder grp m) = filename m \<and> node_id (merge_folder grp m) = node_id m"
  by (simp add: merge_folder_def split: option.splits)

lemma merge_folder_normalized:
  assumes "\<forall>c \<in> set grp. folder_key c = f" and "folder_key m = f"
  shows "folder_key (merge_folder grp m) = f"
proof (cases "first_with (\<lambda>c. truthy (suggested_folder c)) grp")
  case None
  with assms(2) show ?thesis by (simp add: merge_folder_def)
next
  case (Some c0)
  then have "c0 \<in> set grp" by (auto dest: first_with_member)
  with assms(1) have "folder_key c0 = f" by simp
  with assms(2) Some show ?thesis by (simp add: merge_folder_def folder_key_def)
qed

lemma merge_group_key:
  assumes "grp \<noteq> []" and "\<forall>c \<in> set grp. variant_group_key c = Some k"
  shows "variant_group_key (merge_group grp) = Some k"
proof (cases "length grp = 1")
  case True
  with assms show ?thesis by (cases grp) (auto simp: merge_group_def)
next
  case False
  define best where "best = max_by variant_better (hd grp) (tl grp)"
  from assms(1) have "best \<in> set grp"
    using max_by_member [of variant_better "hd grp" "tl grp"]
    by (cases grp) (auto simp: best_def)
  with assms(2) have kb: "variant_group_key best = Some k" by simp
  obtain n f c where k: "k = (n, f, c)" by (cases k)
  from assms(2) k have "\<forall>c \<in> set grp. folder_key c = f"
    by (auto simp: folder_key_def dest: variant_key_folder)
  moreover from kb k have "folder_key (merge_url grp best) = f"
    by (auto simp: folder_key_def merge_url_fields dest: variant_key_folder)
  ultimately have "folder_key (merge_folder grp (merge_url grp best)) = f"
    by (rule merge_folder_normalized)
  moreover from kb k have "folder_key best = f"
    by (auto simp: folder_key_def dest: variant_key_folder)
  ultimately have "variant_group_key (merge_requested grp (merge_folder grp (merge_url grp best)))
      = variant_group_key best"
    by (intro variant_key_cong)
       (simp_all add: merge_requested_fields merge_folder_fields merge_url_fields folder_key_def)
  with kb False show ?thesis by (simp add: merge_group_def best_def)
qed

lemma coalesce_keys:
  "map variant_group_key (coalesce_variants xs)
     = map (\<lambda>m. None) (filter (\<lambda>m. \<not> keyed m) xs)
       @ map (\<lambda>(k, grp). Some k) (group_by (\<lambda>m. the (variant_group_key m)) (filter keyed xs))"
proof -
  have a: "map variant_group_key (filter (\<lambda>m. \<not> keyed m) xs)
             = map (\<lambda>m. None) (filter (\<lambda>m. \<not> keyed m) xs)"
    by (induction xs) (auto simp: keyed_def)
  have b: "variant_group_key (merge_group grp) = Some k"
    if "(k, grp) \<in> set (group_by (\<lambda>m. the (variant_group_key m)) (filter keyed xs))" for k grp
  proof -
    from group_by_members [OF that]
    have "grp \<noteq> []" "set grp \<subseteq> set (filter keyed xs)"
      "\<forall>x \<in> set grp. the (variant_group_key x) = k" by auto
    then have "\<forall>c \<in> set grp. variant_group_key c = Some k"
      by (fastforce simp: keyed_def)
    with \<open>grp \<noteq> []\<close> show ?thesis by (rule merge_group_key)
  qed
  show ?thesis
    using a b by (auto simp: coalesce_variants_def coalesce_fold)
qed

lemma filter_absent: "k \<notin> set ks \<Longrightarrow> filter (\<lambda>k'. k' = k) ks = []"
  by (induction ks) auto

lemma count_distinct_member:
  "distinct ks \<Longrightarrow> k \<in> set ks \<Longrightarrow> length (filter (\<lambda>k'. k' = k) ks) = 1"
  by (induction ks) (auto simp: filter_absent)

lemma filter_some_of_none: "filter (\<lambda>v. v = Some k) (map (\<lambda>m. None) ys) = []"
  by (induction ys) auto

lemma filter_some_of_keys:
  "length (filter (\<lambda>v. v = Some k) (map (\<lambda>(k', grp). Some k') gs))
     = length (filter (\<lambda>k'. k' = k) (map fst gs))"
  by (induction gs) auto

lemma coalesce_one_per_key:
  assumes "r1 \<in> set xs" and "variant_group_key r1 = Some k"
  shows "length (filter (\<lambda>m. variant_group_key m = Some k) (coalesce_variants xs)) = 1"
proof -
  define gs where "gs = group_by (\<lambda>m. the (variant_group_key m)) (filter keyed xs)"
  have "length (filter (\<lambda>m. variant_group_key m = Some k) (coalesce_variants xs))
        = length (filter (\<lambda>v. v = Some k) (map variant_group_key (coalesce_variants xs)))"
    by (simp add: filter_map comp_def)
  also have "\<dots> = length (filter (\<lambda>k'. k' = k) (map fst gs))"
    unfolding coalesce_keys gs_def [symmetric]
    by (simp only: filter_append filter_some_of_none filter_some_of_keys append_Nil)
  also have "\<dots> = 1"
  proof -
    from assms(2) have "keyed r1" "the (variant_group_key r1) = k"
      unfolding keyed_def by simp_all
    with assms(1) have "k \<in> (\<lambda>m. the (variant_group_key m)) ` set (filter keyed xs)"
      by force
    then have "k \<in> set (map fst gs)"
      by (simp add: group_by_keys_set gs_def)
    moreover have "distinct (map fst gs)"
      unfolding gs_def by (rule group_by_keys_distinct)
    ultimately show ?thesis
      by (intro count_distinct_member)
  qed
  finally show ?thesis .
qed

lemma startswith_iff: "startswith s p \<longleftrightarrow> (\<exists>t. s = p @ t)"
  by (induction s p rule: startswith.induct) auto

lemma endswith_iff: "endswith s p \<longleftrightarrow> (\<exists>t. s = t @ p)"
proof
  assume "endswith s p"
  then obtain t where "rev s = rev p @ t" by (auto simp: endswith_def startswith_iff)
  then have "s = rev t @ p" by (metis rev_append rev_rev_ident)
  then show "\<exists>t. s = t @ p" ..
next
  assume "\<exists>t. s = t @ p"
  then show "endswith s p" by (auto simp: endswith_def startswith_iff)
qed

lemma endswith_append_cases: "endswith (x @ q) b \<Longrightarrow> endswith q b \<or> endswith b q"
  by (auto simp: endswith_iff append_eq_append_conv2)

lemma quant_suffixes_apart:
  "\<forall>b \<in> set QUANT_SUFFIXES. \<forall>q \<in> set QUANT_SUFFIXES. endswith b q \<longrightarrow> b = q"
  by (simp add: QUANT_SUFFIXES_def FP8_E4M3FN_def FP_BITS_def INT_BITS_def endswith_def)

lemma quant_suffix_shape:
  "\<forall>q \<in> set QUANT_SUFFIXES. q \<noteq> [] \<and> last q \<noteq> newline"
  by (simp add: QUANT_SUFFIXES_def FP8_E4M3FN_def FP_BITS_def INT_BITS_def newline_def)

lemma quant_suffix_unique:
  assumes "q \<in> set QUANT_SUFFIXES" and "b \<in> set QUANT_SUFFIXES" and "endswith (x @ q) b"
  shows "b = q"
  using endswith_append_cases [OF assms(3)] assms(1,2) quant_suffixes_apart by metis


lemma find_unique:
  assumes "q \<in> set bodies" and "P q" and "\<And>b. b \<in> set bodies \<Longrightarrow> P b \<Longrightarrow> b = q"
  shows "List.find P bodies = Some q"
proof (cases "List.find P bodies")
  case None
  with assms(1,2) show ?thesis by (auto simp: find_None_iff)
next
  case (Some b)
  then have "b \<in> set bodies" "P b" by (auto simp: find_Some_iff)
  with assms(3) Some show ?thesis by simp
qed

lemma strip_quant_hit:
  assumes "q \<in> set bodies" and "set bodies \<subseteq> set QUANT_SUFFIXES"
  shows "strip_quant bodies (x @ q) = (if ends_in_separator x then butlast x else x)"
proof -
  from assms have q: "q \<in> set QUANT_SUFFIXES" by auto
  with quant_suffix_shape have shape: "q \<noteq> []" "last q \<noteq> newline" by auto
  have "List.find (endswith (x @ q)) bodies = Some q"
  proof (rule find_unique)
    show "q \<in> set bodies" by (rule assms(1))
    show "endswith (x @ q) q" by (auto simp: endswith_iff)
    fix b assume "b \<in> set bodies" "endswith (x @ q) b"
    with assms(2) q show "b = q" by (auto intro: quant_suffix_unique)
  qed
  with shape show ?thesis
    by (simp add: strip_quant_def ends_in_separator_def)
qed

lemma strip_quant_other:
  assumes "q \<in> set QUANT_SUFFIXES" and "set bodies \<subseteq> set QUANT_SUFFIXES" and "q \<notin> set bodies"
  shows "strip_quant bodies (x @ q) = x @ q"
proof -
  from assms(1) quant_suffix_shape have shape: "q \<noteq> []" "last q \<noteq> newline" by auto
  have "List.find (endswith (x @ q)) bodies = None"
  proof -
    have "\<not> endswith (x @ q) b" if "b \<in> set bodies" for b
    proof
      assume "endswith (x @ q) b"
      with assms(1,2) that have "b = q" by (auto intro: quant_suffix_unique)
      with that assms(3) show False by simp
    qed
    then show ?thesis by (auto simp: find_None_iff)
  qed
  with shape show ?thesis by (simp add: strip_quant_def)
qed

lemma strip_quant_miss:
  assumes "set bodies \<subseteq> set QUANT_SUFFIXES" and "\<not> ends_in_quant_suffix s"
  shows "strip_quant bodies s = s"
proof -
  define tail where "tail = (if s \<noteq> [] \<and> last s = newline then [newline] else [])"
  define core where "core = take (length s - length tail) s"
  have s: "s = core @ tail"
  proof (cases "s \<noteq> [] \<and> last s = newline")
    case True
    then have "s = butlast s @ [newline]" by (metis append_butlast_last_id)
    with True show ?thesis by (simp add: core_def tail_def butlast_conv_take)
  next
    case False
    then show ?thesis by (auto simp: core_def tail_def)
  qed
  have "\<not> endswith core b" if "b \<in> set bodies" for b
  proof
    assume "endswith core b"
    then obtain t where "core = t @ b" by (auto simp: endswith_iff)
    with s have "s = t @ b @ tail" by simp
    then have "endswith s b \<or> endswith s (b @ [newline])"
      by (cases "s \<noteq> [] \<and> last s = newline") (auto simp: endswith_iff tail_def)
    moreover from that assms(1) have "b \<in> set QUANT_SUFFIXES" by auto
    ultimately show False using assms(2)
      by (auto simp: ends_in_quant_suffix_def list_ex_iff)
  qed
  then have "List.find (endswith core) bodies = None" by (auto simp: find_None_iff)
  then show ?thesis
    unfolding strip_quant_def Let_def tail_def [symmetric] core_def [symmetric] by simp
qed

lemma class_subsets:
  "set FP8_E4M3FN \<subseteq> set QUANT_SUFFIXES" "set FP_BITS \<subseteq> set QUANT_SUFFIXES"
  "set [''bf16''] \<subseteq> set QUANT_SUFFIXES" "set [''nf4''] \<subseteq> set QUANT_SUFFIXES"
  "set INT_BITS \<subseteq> set QUANT_SUFFIXES"
  by (auto simp: QUANT_SUFFIXES_def)

lemma class_cases:
  assumes "q \<in> set QUANT_SUFFIXES"
  obtains
    (fp8_e4m3fn) "q \<in> set FP8_E4M3FN"
  | (fp_bits) "q \<in> set FP_BITS" "q \<notin> set FP8_E4M3FN"
  | (bf16) "q \<in> set [''bf16'']" "q \<notin> set FP8_E4M3FN" "q \<notin> set FP_BITS"
  | (nf4) "q \<in> set [''nf4'']" "q \<notin> set FP8_E4M3FN" "q \<notin> set FP_BITS" "q \<notin> set [''bf16'']"
  | (int_bits) "q \<in> set INT_BITS" "q \<notin> set FP8_E4M3FN" "q \<notin> set FP_BITS"
      "q \<notin> set [''bf16'']" "q \<notin> set [''nf4'']"
proof -
  from assms have "q \<in> set FP8_E4M3FN \<or> q \<in> set FP_BITS \<or> q \<in> set [''bf16'']
      \<or> q \<in> set [''nf4''] \<or> q \<in> set INT_BITS"
    by (simp only: QUANT_SUFFIXES_def set_append Un_iff)
  then show thesis
    using fp8_e4m3fn fp_bits bf16 nf4 int_bits by blast
qed

lemma passes_plain:
  assumes "\<not> ends_in_quant_suffix s"
  shows "strip_quant_passes s = s"
  unfolding strip_quant_passes_def
  by (simp only: strip_quant_miss [OF class_subsets(1) assms]
        strip_quant_miss [OF class_subsets(2) assms] strip_quant_miss [OF class_subsets(3) assms]
        strip_quant_miss [OF class_subsets(4) assms] strip_quant_miss [OF class_subsets(5) assms])

lemma passes_suffixed:
  assumes "q \<in> set QUANT_SUFFIXES" and "\<not> ends_in_quant_suffix s"
    and "(if ends_in_separator x then butlast x else x) = s"
  shows "strip_quant_passes (x @ q) = s"
proof -
  note miss = strip_quant_miss [OF class_subsets(1) assms(2)]
    strip_quant_miss [OF class_subsets(2) assms(2)] strip_quant_miss [OF class_subsets(3) assms(2)]
    strip_quant_miss [OF class_subsets(4) assms(2)] strip_quant_miss [OF class_subsets(5) assms(2)]
  from assms(1) show ?thesis
  proof (cases rule: class_cases)
    case fp8_e4m3fn
    show ?thesis
      unfolding strip_quant_passes_def
      by (simp only: strip_quant_hit [OF fp8_e4m3fn class_subsets(1)] assms(3) miss)
  next
    case fp_bits
    show ?thesis
      unfolding strip_quant_passes_def
      by (simp only: strip_quant_other [OF assms(1) class_subsets(1) fp_bits(2)]
            strip_quant_hit [OF fp_bits(1) class_subsets(2)] assms(3) miss)
  next
    case bf16
    show ?thesis
      unfolding strip_quant_passes_def
      by (simp only: strip_quant_other [OF assms(1) class_subsets(1) bf16(2)]
            strip_quant_other [OF assms(1) class_subsets(2) bf16(3)]
            strip_quant_hit [OF bf16(1) class_subsets(3)] assms(3) miss)
  next
    case nf4
    show ?thesis
      unfolding strip_quant_passes_def
      by (simp only: strip_quant_other [OF assms(1) class_subsets(1) nf4(2)]
            strip_quant_other [OF assms(1) class_subsets(2) nf4(3)]
            strip_quant_other [OF assms(1) class_subsets(3) nf4(4)]
            strip_quant_hit [OF nf4(1) class_subsets(4)] assms(3) miss)
  next
    case int_bits
    show ?thesis
      unfolding strip_quant_passes_def
      by (simp only: strip_quant_other [OF assms(1) class_subsets(1) int_bits(2)]
            strip_quant_other [OF assms(1) class_subsets(2) int_bits(3)]
            strip_quant_other [OF assms(1) class_subsets(3) int_bits(4)]
            strip_quant_other [OF assms(1) class_subsets(4) int_bits(5)]
            strip_quant_hit [OF int_bits(1) class_subsets(5)] assms(3))
  qed
qed

lemma separator_absorbed:
  assumes "sep = [] \<and> \<not> ends_in_separator stem \<or> sep = ''-'' \<or> sep = ''_''"
  shows "(if ends_in_separator (stem @ sep) then butlast (stem @ sep) else stem @ sep) = stem"
  using assms by (auto simp: ends_in_separator_def butlast_append)

lemma lower_char_fixed: "\<forall>d \<in> set ''abcdefghijklmnopqrstuvwxyz''. lower_char d = d"
  by (simp add: lower_char_def)

lemma lower_char_range: "lower_char c = c \<or> lower_char c \<in> set ''abcdefghijklmnopqrstuvwxyz''"
proof (cases "map_of (zip ''ABCDEFGHIJKLMNOPQRSTUVWXYZ'' ''abcdefghijklmnopqrstuvwxyz'') c")
  case None
  then show ?thesis by (simp add: lower_char_def)
next
  case (Some d)
  then have "(c, d) \<in> set (zip ''ABCDEFGHIJKLMNOPQRSTUVWXYZ'' ''abcdefghijklmnopqrstuvwxyz'')"
    by (rule map_of_SomeD)
  then have "d \<in> set ''abcdefghijklmnopqrstuvwxyz''" by (rule set_zip_rightD)
  moreover have "lower_char c = d" using Some by (simp only: lower_char_def option.case)
  ultimately show ?thesis by (simp only: simp_thms)
qed

lemma lower_char_idem: "lower_char (lower_char c) = lower_char c"
  using lower_char_range [of c] lower_char_fixed by auto

lemma lower_idem: "lower (lower s) = lower s"
  by (simp add: lower_def lower_char_idem)

lemma splitext_empty: "splitext [] = ([], [])"
  by (simp add: splitext_def basename_def)

lemma canonicalize_passes:
  "canonicalize_model_base fname = strip_quant_passes (fst (splitext (lower fname)))"
  by (simp add: canonicalize_model_base_def strip_quant_passes_def)

lemma normalized_name_nonempty:
  "normalized_name r \<noteq> [] \<Longrightarrow> strip (or_else (filename r) []) \<noteq> []"
  by (auto simp: normalized_name_def lower_def basename_def unbackslash_def)

lemma variant_group_key_normalized:
  assumes "splitext (normalized_name r) = (st, ext)" and "st \<noteq> []"
    and "strip_quant_passes st = c" and "c \<noteq> []"
  shows "variant_group_key r
           = Some (node_id r, normalize_dedupe_path (suggested_folder r), c @ ext)"
proof -
  from assms(1,2) have "normalized_name r \<noteq> []" by (auto simp: splitext_empty)
  then have ne: "strip (or_else (filename r) []) \<noteq> []" by (rule normalized_name_nonempty)
  have low: "lower (normalized_name r) = normalized_name r"
    by (simp add: normalized_name_def lower_idem)
  have "canonical_variant_name (strip (or_else (filename r) [])) = c @ ext"
    using assms low
    by (simp add: canonical_variant_name_def Let_def canonicalize_passes
          normalized_name_def [symmetric])
  with ne show ?thesis by (simp add: variant_group_key_def Let_def)
qed


lemma coalesce_pair:
  assumes "variant_group_key r1 = Some k" and "variant_group_key r2 = Some k"
  shows "coalesce_variants [r1, r2] = [merge_group [r1, r2]]"
  using assms by (simp add: coalesce_variants_def coalesce_step_def)

lemma keyed_named:
  "variant_group_key m = Some k \<Longrightarrow> lower (or_else (filename m) []) \<noteq> []"
  by (auto simp: variant_group_key_def Let_def lower_def strip_def split: if_splits)

lemma dedupe_by_name_single:
  "lower (or_else (filename m) []) \<noteq> [] \<Longrightarrow> dedupe_by_name [m] = [m]"
  by (simp add: dedupe_by_name_def group_by_def dedupe_group_def drop_unscoped_def)

lemma reconcile_pair:
  assumes "variant_group_key r1 = Some k" and "variant_group_key r2 = Some k"
  shows "length (reconcile b [r1, r2]) = 1"
proof -
  have "variant_group_key (merge_group [r1, r2]) = Some k"
    using assms by (intro merge_group_key) auto
  then have "dedupe_by_name [merge_group [r1, r2]] = [merge_group [r1, r2]]"
    by (intro dedupe_by_name_single keyed_named)
  then show ?thesis
    by (simp add: reconcile_def required_after_precision_def coalesce_pair [OF assms])
qed

text \<open>
  C6 (as amended). Take two references with the same node id and the same suggested
  category whose lowercased base names have the same extension and the stems \<open>stem\<close> and
  \<open>stem @ sep @ q\<close>: \<open>q\<close> is one of the known quantization suffixes, \<open>sep\<close> is \<open>-\<close>, \<open>_\<close> or
  nothing, and the shorter stem is not empty and does not itself end in a quantization
  suffix (nor in a separator when \<open>q\<close> follows it directly). Then both have the group key
  \<open>(node_id, category, stem @ ext)\<close>, variant coalescing of any list that holds them
  leaves exactly one reference with that key, and reconciling the pair yields exactly
  one reference.
\<close>

theorem variants_coalesce_to_one:
  assumes "r1 \<in> set xs" and "r2 \<in> set xs"
    and "node_id r1 = node_id r2"
    and "suggested_folder r1 = suggested_folder r2"
    and "splitext (normalized_name r1) = (stem @ sep @ q, ext)"
    and "splitext (normalized_name r2) = (stem, ext)"
    and "q \<in> set QUANT_SUFFIXES"
    and "sep = [] \<and> \<not> ends_in_separator stem \<or> sep = ''-'' \<or> sep = ''_''"
    and "stem \<noteq> []"
    and "\<not> ends_in_quant_suffix stem"
  shows "variant_group_key r1
           = Some (node_id r1, normalize_dedupe_path (suggested_folder r1), stem @ ext)
     \<and> variant_group_key r2 = variant_group_key r1
     \<and> length (filter (\<lambda>m. variant_group_key m = variant_group_key r1) (coalesce_variants xs)) = 1
     \<and> length (reconcile is_blackwell [r1, r2]) = 1"
proof -
  have "strip_quant_passes ((stem @ sep) @ q) = stem"
    using assms(7,10) separator_absorbed [OF assms(8)] by (rule passes_suffixed)
  then have p1: "strip_quant_passes (stem @ sep @ q) = stem" by simp
  have p2: "strip_quant_passes stem = stem"
    using assms(10) by (rule passes_plain)
  from assms(7) quant_suffix_shape have ne: "stem @ sep @ q \<noteq> []" by auto
  from assms(5) ne p1 assms(9)
  have k1: "variant_group_key r1
         = Some (node_id r1, normalize_dedupe_path (suggested_folder r1), stem @ ext)"
    by (rule variant_group_key_normalized)
  from assms(6) assms(9) p2 assms(9)
  have "variant_group_key r2
         = Some (node_id r2, normalize_dedupe_path (suggested_folder r2), stem @ ext)"
    by (rule variant_group_key_normalized)
  with assms(3,4) k1 have k2: "variant_group_key r2 = variant_group_key r1" by simp
  from assms(1) k1
  have "length (filter (\<lambda>m. variant_group_key m
            = Some (node_id r1, normalize_dedupe_path (suggested_folder r1), stem @ ext))
          (coalesce_variants xs)) = 1"
    by (rule coalesce_one_per_key)
  moreover from k1 k2 have "length (reconcile is_blackwell [r1, r2]) = 1"
    by (intro reconcile_pair) simp_all
  ultimately show ?thesis using k1 k2 by simp
qed

theorem variants_coalesce_to_one_witness:
  "variant_group_key (widget_ref ''a_fp16.safetensors'' 5 ''loras'')
     = Some (Some 5, ''loras'', ''a.safetensors'')
   \<and> variant_group_key (widget_ref ''a.safetensors'' 5 ''loras'')
     = variant_group_key (widget_ref ''a_fp16.safetensors'' 5 ''loras'')
   \<and> length (filter (\<lambda>m. variant_group_key m
                          = variant_group_key (widget_ref ''a_fp16.safetensors'' 5 ''loras''))
               (coalesce_variants [widget_ref ''a_fp16.safetensors'' 5 ''loras'',
                                   widget_ref ''a.safetensors'' 5 ''loras''])) = 1
   \<and> reconcile False [widget_ref ''a_fp16.safetensors'' 5 ''loras'',
                        widget_ref ''a.safetensors'' 5 ''loras'']
       = [(widget_ref ''a.safetensors'' 5 ''loras'')\<lparr>requested_path := Some ''a_fp16.safetensors''\<rparr>]"
proof -
  have h1: "widget_ref ''a_fp16.safetensors'' 5 ''loras''
              \<in> set [widget_ref ''a_fp16.safetensors'' 5 ''loras'',
                      widget_ref ''a.safetensors'' 5 ''loras'']"
    by simp
  have h2: "widget_ref ''a.safetensors'' 5 ''loras''
              \<in> set [widget_ref ''a_fp16.safetensors'' 5 ''loras'',
                      widget_ref ''a.safetensors'' 5 ''loras'']"
    by simp
  have h3: "node_id (widget_ref ''a_fp16.safetensors'' 5 ''loras'')
              = node_id (widget_ref ''a.safetensors'' 5 ''loras'')"
    by code_simp
  have h4: "suggested_folder (widget_ref ''a_fp16.safetensors'' 5 ''loras'')
              = suggested_folder (widget_ref ''a.safetensors'' 5 ''loras'')"
    by code_simp
  have h5: "splitext (normalized_name (widget_ref ''a_fp16.safetensors'' 5 ''loras''))
              = (''a'' @ ''_'' @ ''fp16'', ''.safetensors'')"
    by code_simp
  have h6: "splitext (normalized_name (widget_ref ''a.safetensors'' 5 ''loras''))
              = (''a'', ''.safetensors'')"
    by code_simp
  have h7: "''fp16'' \<in> set QUANT_SUFFIXES" by code_simp
  have h8: "''_'' = [] \<and> \<not> ends_in_separator ''a'' \<or> ''_'' = ''-'' \<or> ''_'' = ''_''" by simp
  have h9: "''a'' \<noteq> []" by simp
  have h10: "\<not> ends_in_quant_suffix ''a''" by code_simp
  have n: "node_id (widget_ref ''a_fp16.safetensors'' 5 ''loras'') = Some 5"
    "normalize_dedupe_path (suggested_folder (widget_ref ''a_fp16.safetensors'' 5 ''loras''))
       = ''loras''"
    "''a'' @ ''.safetensors'' = ''a.safetensors''"
    by code_simp+
  have r: "reconcile False [widget_ref ''a_fp16.safetensors'' 5 ''loras'',
                            widget_ref ''a.safetensors'' 5 ''loras'']
       = [(widget_ref ''a.safetensors'' 5 ''loras'')\<lparr>requested_path := Some ''a_fp16.safetensors''\<rparr>]"
    by code_simp
  from variants_coalesce_to_one [OF h1 h2 h3 h4 h5 h6 h7 h8 h9 h10, of False] r
  show ?thesis unfolding n by blast
qed

text \<open>
  C6 as stated fails for the names left out above. \<open>a_fp16_bf16.safetensors\<close> and
  \<open>a_fp16.safetensors\<close> differ only by the suffix \<open>_bf16\<close>, but the single pass leaves the
  canonical stems \<open>a_fp16\<close> and \<open>a\<close>. \<open>a_fp16.safetensors\<close> and \<open>a_.safetensors\<close> differ
  only by the suffix \<open>fp16\<close>, but the substitution takes the separator with it and the
  canonical stems are \<open>a\<close> and \<open>a_\<close>. Either pair of node 5 stays two references.
\<close>

theorem variants_coalesce_counterexample:
  "canonicalize_model_base ''a_fp16_bf16.safetensors'' = ''a_fp16''
   \<and> canonicalize_model_base ''a_fp16.safetensors'' = ''a''
   \<and> reconcile False [widget_ref ''a_fp16_bf16.safetensors'' 5 ''loras'',
                        widget_ref ''a_fp16.safetensors'' 5 ''loras'']
       = [widget_ref ''a_fp16_bf16.safetensors'' 5 ''loras'',
          widget_ref ''a_fp16.safetensors'' 5 ''loras'']
   \<and> canonicalize_model_base ''a_.safetensors'' = ''a_''
   \<and> reconcile False [widget_ref ''a_fp16.safetensors'' 5 ''loras'',
                        widget_ref ''a_.safetensors'' 5 ''loras'']
       = [widget_ref ''a_fp16.safetensors'' 5 ''loras'',
          widget_ref ''a_.safetensors'' 5 ''loras'']"
  by code_simp

section \<open>Verification: the run, its callback and its budget\<close>






























end
